theory Spec2Isabelle
  imports Complex_Main
begin

section \<open>Python values and errors\<close>

text \<open>
  The two source files are \<^verbatim>\<open>cantera_chemistry_model.py\<close> (class
  \<^verbatim>\<open>CanteraChemistryModel\<close>) and \<^verbatim>\<open>flame_speed.py\<close> (its subclass
  \<^verbatim>\<open>FlameSpeed\<close>). Python floats are modelled as \<open>real\<close>; a raised exception
  is the \<open>Inl\<close> branch of a sum. Division raises \<^verbatim>\<open>ZeroDivisionError\<close> on a zero
  divisor, as Python float division does.
\<close>

datatype error =
    AttributeError
  | IndexError
  | ZeroDivisionError
  | UnboundLocalError
  | AssertionError
  | CanteraError

definition py_div :: "real \<Rightarrow> real \<Rightarrow> error + real" where
  "py_div a b = (if b = 0 then Inl ZeroDivisionError else Inr (a / b))"

text \<open>
  \<^verbatim>\<open>xs[i]\<close> on a Python list: a negative index counts from the end, an index out of
  range raises \<^verbatim>\<open>IndexError\<close>.
\<close>

definition py_index :: "'a list \<Rightarrow> int \<Rightarrow> error + 'a" where
  "py_index xs i =
     (if 0 \<le> i \<and> i < int (length xs) then Inr (xs ! nat i)
      else if i < 0 \<and> - int (length xs) \<le> i then Inr (xs ! nat (int (length xs) + i))
      else Inl IndexError)"

text \<open>\<^verbatim>\<open>p in s\<close> on strings: \<open>p\<close> occurs in \<open>s\<close> as a contiguous substring.\<close>

definition starts_with :: "string \<Rightarrow> string \<Rightarrow> bool" where
  "starts_with p s = (take (length p) s = p)"

fun str_in :: "string \<Rightarrow> string \<Rightarrow> bool" where
  "str_in p [] = (p = [])"
| "str_in p (c # cs) = (starts_with p (c # cs) \<or> str_in p cs)"

section \<open>The mechanism as the chemistry engine presents it\<close>

text \<open>
  \<^verbatim>\<open>ct.Arrhenius(A, b, E)\<close>: the rate-law triple, read through the attributes
  \<^verbatim>\<open>pre_exponential_factor\<close>, \<^verbatim>\<open>temperature_exponent\<close> and
  \<^verbatim>\<open>activation_energy\<close>.
\<close>

record arrhenius =
  pre_exponential_factor :: real
  temperature_exponent :: real
  activation_energy :: real

definition Arrhenius :: "real \<Rightarrow> real \<Rightarrow> real \<Rightarrow> arrhenius" where
  "Arrhenius A b E =
     \<lparr>pre_exponential_factor = A, temperature_exponent = b, activation_energy = E\<rparr>"

text \<open>
  The third-body data of a reaction: the dictionary \<^verbatim>\<open>efficiencies\<close> (species name to
  efficiency, an association list in the dictionary's iteration order) and the default
  efficiency that \<^verbatim>\<open>efficiency(species)\<close> returns for a species the dictionary
  does not list.
\<close>

record third_body =
  efficiencies :: "(string \<times> real) list"
  default_efficiency :: real

definition efficiency :: "third_body \<Rightarrow> string \<Rightarrow> real" where
  "efficiency tb sp =
     (case map_of (efficiencies tb) sp of Some v \<Rightarrow> v | None \<Rightarrow> default_efficiency tb)"

text \<open>
  The reaction classes of the engine, each with its equation string. The attribute
  \<^verbatim>\<open>reaction_type\<close> is the class constant the source compares with 2, 4 and 8.
  An attribute a class does not have raises \<^verbatim>\<open>AttributeError\<close> when read:
  \<^verbatim>\<open>rate\<close> exists on elementary and three-body reactions, \<^verbatim>\<open>high_rate\<close> and
  \<^verbatim>\<open>low_rate\<close> on falloff and chemically activated reactions,
  \<^verbatim>\<open>efficiencies\<close> on the three classes with a third body.
\<close>

datatype reaction =
    ElementaryReaction string arrhenius
  | ThreeBodyReaction string arrhenius third_body
  | FalloffReaction string arrhenius arrhenius third_body
  | ChemicallyActivatedReaction string arrhenius arrhenius third_body
  | PlogReaction string
  | ChebyshevReaction string

fun reaction_type :: "reaction \<Rightarrow> int" where
  "reaction_type (ElementaryReaction eq r) = 1"
| "reaction_type (ThreeBodyReaction eq r tb) = 2"
| "reaction_type (FalloffReaction eq hi lo tb) = 4"
| "reaction_type (ChemicallyActivatedReaction eq hi lo tb) = 8"
| "reaction_type (PlogReaction eq) = 5"
| "reaction_type (ChebyshevReaction eq) = 6"

fun equation :: "reaction \<Rightarrow> string" where
  "equation (ElementaryReaction eq r) = eq"
| "equation (ThreeBodyReaction eq r tb) = eq"
| "equation (FalloffReaction eq hi lo tb) = eq"
| "equation (ChemicallyActivatedReaction eq hi lo tb) = eq"
| "equation (PlogReaction eq) = eq"
| "equation (ChebyshevReaction eq) = eq"

fun rate :: "reaction \<Rightarrow> error + arrhenius" where
  "rate (ElementaryReaction eq r) = Inr r"
| "rate (ThreeBodyReaction eq r tb) = Inr r"
| "rate _ = Inl AttributeError"

fun high_rate :: "reaction \<Rightarrow> error + arrhenius" where
  "high_rate (FalloffReaction eq hi lo tb) = Inr hi"
| "high_rate (ChemicallyActivatedReaction eq hi lo tb) = Inr hi"
| "high_rate _ = Inl AttributeError"

fun low_rate :: "reaction \<Rightarrow> error + arrhenius" where
  "low_rate (FalloffReaction eq hi lo tb) = Inr lo"
| "low_rate (ChemicallyActivatedReaction eq hi lo tb) = Inr lo"
| "low_rate _ = Inl AttributeError"

fun third_body_of :: "reaction \<Rightarrow> error + third_body" where
  "third_body_of (ThreeBodyReaction eq r tb) = Inr tb"
| "third_body_of (FalloffReaction eq hi lo tb) = Inr tb"
| "third_body_of (ChemicallyActivatedReaction eq hi lo tb) = Inr tb"
| "third_body_of _ = Inl AttributeError"

text \<open>The attribute assignments \<^verbatim>\<open>reaction.rate = ...\<close> and its two siblings.\<close>

fun set_rate :: "arrhenius \<Rightarrow> reaction \<Rightarrow> error + reaction" where
  "set_rate a (ElementaryReaction eq r) = Inr (ElementaryReaction eq a)"
| "set_rate a (ThreeBodyReaction eq r tb) = Inr (ThreeBodyReaction eq a tb)"
| "set_rate a _ = Inl AttributeError"

fun set_high_rate :: "arrhenius \<Rightarrow> reaction \<Rightarrow> error + reaction" where
  "set_high_rate a (FalloffReaction eq hi lo tb) = Inr (FalloffReaction eq a lo tb)"
| "set_high_rate a (ChemicallyActivatedReaction eq hi lo tb) =
     Inr (ChemicallyActivatedReaction eq a lo tb)"
| "set_high_rate a _ = Inl AttributeError"

fun set_low_rate :: "arrhenius \<Rightarrow> reaction \<Rightarrow> error + reaction" where
  "set_low_rate a (FalloffReaction eq hi lo tb) = Inr (FalloffReaction eq hi a tb)"
| "set_low_rate a (ChemicallyActivatedReaction eq hi lo tb) =
     Inr (ChemicallyActivatedReaction eq hi a tb)"
| "set_low_rate a _ = Inl AttributeError"

text \<open>
  \<^verbatim>\<open>ct.Solution(chemistry_model)\<close>: the phase object built from a mechanism
  definition. The definition is taken as the list of its reactions in declared order;
  \<^verbatim>\<open>TPX\<close> is the thermodynamic state last assigned, if any.
\<close>

record solution =
  reactions :: "reaction list"
  TPX :: "(real \<times> real \<times> string) option"

definition Solution :: "reaction list \<Rightarrow> solution" where
  "Solution mech = \<lparr>reactions = mech, TPX = None\<rparr>"

text \<open>\<^verbatim>\<open>gas.reaction(i)\<close>; the engine rejects an index out of range.\<close>

definition reaction_at :: "solution \<Rightarrow> nat \<Rightarrow> error + reaction" where
  "reaction_at g i = (if i < length (reactions g) then Inr (reactions g ! i) else Inl CanteraError)"

text \<open>\<^verbatim>\<open>gas.reaction_equations([i])[0]\<close>.\<close>

definition reaction_equation :: "solution \<Rightarrow> nat \<Rightarrow> error + string" where
  "reaction_equation g i =
     (case reaction_at g i of Inl e \<Rightarrow> Inl e | Inr r \<Rightarrow> Inr (equation r))"

text \<open>\<^verbatim>\<open>gas.modify_reaction(i, reaction)\<close>.\<close>

definition modify_reaction :: "nat \<Rightarrow> reaction \<Rightarrow> solution \<Rightarrow> error + solution" where
  "modify_reaction i r g =
     (if i < length (reactions g) then Inr (g\<lparr>reactions := (reactions g)[i := r]\<rparr>)
      else Inl CanteraError)"

section \<open>The model object\<close>

text \<open>
  \<^verbatim>\<open>StateDefinition(T, Patm, composition)\<close> is built outside the two source
  files; the model only reads its three attributes back.
\<close>

record state_definition =
  T :: real
  P :: real
  composition :: string

text \<open>One entry of the parameter catalog: the dictionary built in \<^verbatim>\<open>get_reaction_info\<close>.\<close>

record param_info =
  reaction_number :: nat
  parameter_type :: string
  parameter_name :: string
  species :: "string option"

text \<open>
  The freely-propagating flame object \<^verbatim>\<open>ct.FreeFlame\<close>, as far as the source
  touches it: the settings it assigns, the inlet velocity \<^verbatim>\<open>u[0]\<close> it reads, and
  the sizes the adjoint path reads (\<^verbatim>\<open>n_components\<close> and \<^verbatim>\<open>n_points\<close> of each
  domain, the inlet's component count, the index of the component \<^verbatim>\<open>'u'\<close>).
\<close>

record free_flame =
  energy_enabled :: bool
  transport_model :: string
  soret_enabled :: bool
  max_jac_age :: "(int \<times> int) option"
  time_step :: "(real \<times> int list) option"
  refine_criteria :: "(real \<times> real \<times> real \<times> real) option"
  steady_tolerances :: "(real \<times> real) option"
  transient_tolerances :: "(real \<times> real) option"
  bounds_Y :: "(real \<times> real) option"
  u0 :: real
  domains :: "(nat \<times> nat) list"
  inlet_n_components :: nat
  flame_u_index :: nat

text \<open>
  What the program emits, in order: lines printed on the console, lines written to the
  sensitivity log file (value line, header line, one line per parameter), and the calls the
  flame solver receives (\<^verbatim>\<open>solve(loglevel, refine_grid)\<close> with the exception it
  raised, if any; \<^verbatim>\<open>restore(filename, name)\<close>; \<^verbatim>\<open>save(filename, name,
  description)\<close>).
\<close>

datatype event =
    Print string
  | WriteValue real
  | WriteHeader string
  | WriteRow int real real real string
  | WriteAdjointRow int real string
  | Solve int bool "error option"
  | Restore string string "error option"
  | Save string string string "error option"

text \<open>
  The attributes of a \<^verbatim>\<open>CanteraChemistryModel\<close>. \<open>sens_flag\<close> is
  \<^verbatim>\<open>_sens_flag\<close>; \<open>emitted\<close> is the sequence of events emitted so far.
\<close>

record model =
  initial :: state_definition
  chemistry_model :: "reaction list"
  sens_flag :: bool
  no_efficiencies :: bool
  no_energy :: bool
  no_falloff :: bool
  gas :: "solution option"
  reactor :: "unit option"
  simulation :: "free_flame option"
  model_parameter_info :: "param_info list"
  number_parameters :: nat
  emitted :: "event list"

definition emit :: "event \<Rightarrow> 'a model_scheme \<Rightarrow> 'a model_scheme" where
  "emit ev m = m\<lparr>emitted := emitted m @ [ev]\<rparr>"

section \<open>Chemistry lifecycle\<close>

definition blank_chemistry :: "'a model_scheme \<Rightarrow> 'a model_scheme" where
  "blank_chemistry m = m\<lparr>gas := None, reactor := None, simulation := None\<rparr>"

definition initialize_chemistry :: "'a model_scheme \<Rightarrow> 'a model_scheme" where
  "initialize_chemistry m =
     (let g = (case gas m of None \<Rightarrow> Solution (chemistry_model m) | Some g \<Rightarrow> g)
      in m\<lparr>gas := Some (g\<lparr>TPX := Some (T (initial m), P (initial m), composition (initial m))\<rparr>)\<rparr>)"

definition reset_model :: "'a model_scheme \<Rightarrow> 'a model_scheme" where
  "reset_model m = initialize_chemistry (blank_chemistry m)"

section \<open>Parameter catalog builder\<close>

definition entry :: "nat \<Rightarrow> string \<Rightarrow> string \<Rightarrow> param_info" where
  "entry n ty name =
     \<lparr>reaction_number = n, parameter_type = ty, parameter_name = name, species = None\<rparr>"

definition efficiency_entry :: "nat \<Rightarrow> string \<Rightarrow> string \<Rightarrow> param_info" where
  "efficiency_entry n reaction_name species_name =
     \<lparr>reaction_number = n, parameter_type = ''Efficiency'',
      parameter_name = reaction_name @ '':Eff:'' @ species_name, species = Some species_name\<rparr>"

text \<open>
  The two flags of \<^verbatim>\<open>get_reaction_info\<close>. Type 8 assigns
  \<^verbatim>\<open>HasThirdbody\<close> (lower-case b), a different variable, so
  \<^verbatim>\<open>HasThirdBody\<close> keeps its default \<^verbatim>\<open>False\<close> there.
\<close>

definition HasThirdBody :: "reaction \<Rightarrow> bool" where
  "HasThirdBody r = (reaction_type r = 4 \<or> reaction_type r = 2)"

definition HasFalloff :: "reaction \<Rightarrow> bool" where
  "HasFalloff r = (reaction_type r = 4 \<or> reaction_type r = 8)"

text \<open>The part of the entry list that comes from the rate law.\<close>

definition rate_entries :: "nat \<Rightarrow> string \<Rightarrow> reaction \<Rightarrow> error + param_info list" where
  "rate_entries n reaction_name r =
     (if HasFalloff r then
        (case high_rate r of Inl e \<Rightarrow> Inl e | Inr hi \<Rightarrow>
         (case low_rate r of Inl e \<Rightarrow> Inl e | Inr lo \<Rightarrow>
            Inr ([entry n ''High_pressure_A'' (reaction_name @ '':HpA'')]
               @ (if \<bar>activation_energy hi\<bar> > 0.1
                  then [entry n ''High_pressure_E'' (reaction_name @ '':HpE'')] else [])
               @ [entry n ''Low_pressure_A'' (reaction_name @ '':LpA'')]
               @ (if \<bar>activation_energy lo\<bar> > 0.1
                  then [entry n ''Low_pressure_E'' (reaction_name @ '':LpE'')] else []))))
      else
        (case rate r of Inl e \<Rightarrow> Inl e | Inr ra \<Rightarrow>
            Inr ([entry n ''A_factor'' (reaction_name @ '':A'')]
               @ (if \<bar>activation_energy ra\<bar> > 0.1
                  then [entry n ''Energy'' (reaction_name @ '':E'')] else []))))"

text \<open>The loop over \<^verbatim>\<open>reaction.efficiencies\<close>.\<close>

definition efficiency_entries :: "nat \<Rightarrow> string \<Rightarrow> reaction \<Rightarrow> error + param_info list" where
  "efficiency_entries n reaction_name r =
     (if HasThirdBody r then
        (case third_body_of r of Inl e \<Rightarrow> Inl e | Inr tb \<Rightarrow>
           Inr (map (efficiency_entry n reaction_name)
                  (filter (\<lambda>species_name. efficiency tb species_name > 0)
                     (map fst (efficiencies tb)))))
      else Inr [])"

text \<open>
  \<^verbatim>\<open>get_reaction_info(reaction_number, reaction)\<close>. The name is read from the live
  \<^verbatim>\<open>self.gas\<close>, the reaction is the one handed in. The first value given to
  \<^verbatim>\<open>reaction_info\<close> is overwritten on both branches and is left out.
\<close>

definition get_reaction_info ::
  "'a model_scheme \<Rightarrow> nat \<Rightarrow> reaction \<Rightarrow> error + param_info list" where
  "get_reaction_info m n r =
     (case gas m of None \<Rightarrow> Inl AttributeError | Some g \<Rightarrow>
      (case reaction_equation g n of Inl e \<Rightarrow> Inl e | Inr reaction_name \<Rightarrow>
       (case rate_entries n reaction_name r of Inl e \<Rightarrow> Inl e | Inr info \<Rightarrow>
        (case efficiency_entries n reaction_name r of Inl e \<Rightarrow> Inl e | Inr effs \<Rightarrow>
           Inr (info @ effs)))))"

text \<open>The first loop of \<^verbatim>\<open>get_model_parameter_info\<close>, from reaction number \<open>n\<close> on.\<close>

fun reaction_infos :: "'a model_scheme \<Rightarrow> nat \<Rightarrow> reaction list \<Rightarrow> error + param_info list" where
  "reaction_infos m n [] = Inr []"
| "reaction_infos m n (r # rs) =
     (case get_reaction_info m n r of Inl e \<Rightarrow> Inl e | Inr reac_info \<Rightarrow>
      (case reaction_infos m (Suc n) rs of Inl e \<Rightarrow> Inl e | Inr rest \<Rightarrow>
         Inr (reac_info @ rest)))"

text \<open>The body of the second loop: whether an entry survives the three flags.\<close>

definition include_this_parameter :: "bool \<Rightarrow> bool \<Rightarrow> bool \<Rightarrow> param_info \<Rightarrow> bool" where
  "include_this_parameter no_eff no_en no_fall p =
     (\<not> (no_eff \<and> parameter_type p = ''Efficiency'')
      \<and> \<not> (no_en \<and> (parameter_type p = ''Energy'' \<or> parameter_type p = ''Low_pressure_E''
                    \<or> parameter_type p = ''High_pressure_E''))
      \<and> \<not> (no_fall \<and> (parameter_type p = ''Low_pressure_A'' \<or> parameter_type p = ''Low_pressure_E''
                    \<or> parameter_type p = ''High_pressure_E'')))"

text \<open>
  \<^verbatim>\<open>get_model_parameter_info\<close>: the entries of a fresh
  \<^verbatim>\<open>ct.Solution(self.chemistry_model)\<close>, then the filter.
\<close>

definition model_parameter_info_full :: "'a model_scheme \<Rightarrow> error + param_info list" where
  "model_parameter_info_full m = reaction_infos m 0 (reactions (Solution (chemistry_model m)))"

definition get_model_parameter_info ::
  "'a model_scheme \<Rightarrow> bool \<Rightarrow> bool \<Rightarrow> bool \<Rightarrow> error + param_info list" where
  "get_model_parameter_info m no_eff no_en no_fall =
     (case model_parameter_info_full m of Inl e \<Rightarrow> Inl e | Inr full \<Rightarrow>
        Inr (filter (include_this_parameter no_eff no_en no_fall) full))"

text \<open>\<^verbatim>\<open>prepare_chemistry\<close> and the constructor \<^verbatim>\<open>__init__\<close>.\<close>

definition prepare_chemistry ::
  "bool \<Rightarrow> bool \<Rightarrow> bool \<Rightarrow> 'a model_scheme \<Rightarrow> error + 'a model_scheme" where
  "prepare_chemistry no_eff no_en no_fall m =
     (let m1 = m\<lparr>no_efficiencies := no_eff, no_energy := no_en, no_falloff := no_fall\<rparr>;
          m2 = initialize_chemistry (blank_chemistry m1)
      in case get_model_parameter_info m2 no_eff no_en no_fall of
           Inl e \<Rightarrow> Inl e
         | Inr info \<Rightarrow>
             Inr (blank_chemistry (m2\<lparr>model_parameter_info := info,
                                      number_parameters := length info\<rparr>)))"

definition init_model ::
  "state_definition \<Rightarrow> reaction list \<Rightarrow> bool \<Rightarrow> bool \<Rightarrow> bool \<Rightarrow> error + model" where
  "init_model st mech no_eff no_en no_fall =
     prepare_chemistry no_eff no_en no_fall
       \<lparr>initial = st, chemistry_model = mech, sens_flag = False,
        no_efficiencies = no_eff, no_energy = no_en, no_falloff = no_fall,
        gas = None, reactor = None, simulation = None,
        model_parameter_info = [], number_parameters = 0, emitted = []\<rparr>"

section \<open>Parameter accessor\<close>

text \<open>
  The value a branch of \<^verbatim>\<open>get_parameter\<close> leaves in \<^verbatim>\<open>parameter_value\<close>:
  the pre-exponential factor when \<^verbatim>\<open>'A'\<close> occurs in the type, then the activation
  energy when \<^verbatim>\<open>'E'\<close> occurs in it; \<open>None\<close> while the variable is unbound.
\<close>

definition pick_value :: "string \<Rightarrow> arrhenius \<Rightarrow> real option \<Rightarrow> real option" where
  "pick_value ty r v0 =
     (let v1 = (if str_in ''A'' ty then Some (pre_exponential_factor r) else v0)
      in if str_in ''E'' ty then Some (activation_energy r) else v1)"

text \<open>The part of \<^verbatim>\<open>get_parameter\<close> after the reaction has been fetched.\<close>

definition read_reaction :: "string \<Rightarrow> reaction \<Rightarrow> error + real" where
  "read_reaction ty reaction =
     (if str_in ''pressure'' ty then
        (case high_rate reaction of Inl e \<Rightarrow> Inl e | Inr highrate \<Rightarrow>
         (case low_rate reaction of Inl e \<Rightarrow> Inl e | Inr lowrate \<Rightarrow>
          (let v1 = (if str_in ''High'' ty then pick_value ty highrate None else None);
               v2 = (if str_in ''Low'' ty then pick_value ty lowrate v1 else v1)
           in case v2 of None \<Rightarrow> Inl UnboundLocalError | Some v \<Rightarrow> Inr v)))
      else
        (case rate reaction of Inl e \<Rightarrow> Inl e | Inr ra \<Rightarrow>
         (case pick_value ty ra None of None \<Rightarrow> Inl UnboundLocalError | Some v \<Rightarrow> Inr v)))"

definition get_parameter :: "'a model_scheme \<Rightarrow> int \<Rightarrow> error + real" where
  "get_parameter m parameter_id =
     (case py_index (model_parameter_info m) parameter_id of Inl e \<Rightarrow> Inl e | Inr param_info \<Rightarrow>
      (case gas m of None \<Rightarrow> Inl AttributeError | Some g \<Rightarrow>
       (case reaction_at g (reaction_number param_info) of Inl e \<Rightarrow> Inl e | Inr reaction \<Rightarrow>
          read_reaction (parameter_type param_info) reaction)))"

text \<open>
  The high-pressure block of \<^verbatim>\<open>perturb_parameter\<close>. \<^verbatim>\<open>A = new_value\<close> comes
  first and \<^verbatim>\<open>perturbation = new_value/A\<close> second, so the divisor is the new value.
  The result is the reaction after \<^verbatim>\<open>reaction.high_rate = ct.Arrhenius(A,b,E)\<close> and
  the value of \<^verbatim>\<open>perturbation\<close>, \<open>None\<close> while it is unbound.
\<close>

definition perturb_high ::
  "string \<Rightarrow> real \<Rightarrow> arrhenius \<Rightarrow> reaction \<Rightarrow> error + (reaction \<times> real option)" where
  "perturb_high ty new_value highrate reaction =
     (if str_in ''High'' ty then
        (let A0 = pre_exponential_factor highrate;
             b = temperature_exponent highrate;
             E0 = activation_energy highrate
         in case (if str_in ''A'' ty
                  then (let A = new_value in
                        case py_div new_value A of Inl e \<Rightarrow> Inl e
                        | Inr perturbation \<Rightarrow> Inr (A, Some perturbation))
                  else Inr (A0, None)) of
              Inl e \<Rightarrow> Inl e
            | Inr (A, perturbation) \<Rightarrow>
               (let E = (if str_in ''E'' ty then new_value else E0)
                in case set_high_rate (Arrhenius A b E) reaction of Inl e \<Rightarrow> Inl e
                   | Inr reaction' \<Rightarrow> Inr (reaction', perturbation)))
      else Inr (reaction, None))"

text \<open>
  The low-pressure block: entered when \<^verbatim>\<open>'Low'\<close> occurs in the type or
  \<^verbatim>\<open>self.no_falloff\<close> is set.
\<close>

definition perturb_low ::
  "string \<Rightarrow> real \<Rightarrow> bool \<Rightarrow> real option \<Rightarrow> arrhenius \<Rightarrow> reaction \<Rightarrow> error + reaction" where
  "perturb_low ty new_value no_fall perturbation lowrate reaction =
     (let PerturbLow = (str_in ''Low'' ty \<or> no_fall) in
      if PerturbLow then
        (let A0 = pre_exponential_factor lowrate;
             b = temperature_exponent lowrate;
             E0 = activation_energy lowrate
         in case (if str_in ''A'' ty
                  then (if str_in ''Low'' ty then Inr new_value
                        else (case perturbation of None \<Rightarrow> Inl UnboundLocalError
                              | Some pert \<Rightarrow> Inr (pert * A0)))
                  else Inr A0) of
              Inl e \<Rightarrow> Inl e
            | Inr A \<Rightarrow>
               (let E = (if str_in ''E'' ty then new_value else E0)
                in set_low_rate (Arrhenius A b E) reaction))
      else Inr reaction)"

text \<open>The branch for a type without \<^verbatim>\<open>'pressure'\<close>.\<close>

definition perturb_plain :: "string \<Rightarrow> real \<Rightarrow> reaction \<Rightarrow> error + reaction" where
  "perturb_plain ty new_value reaction =
     (case rate reaction of Inl e \<Rightarrow> Inl e | Inr ra \<Rightarrow>
        (let A = (if str_in ''A'' ty then new_value else pre_exponential_factor ra);
             b = temperature_exponent ra;
             E = (if str_in ''E'' ty then new_value else activation_energy ra)
         in set_rate (Arrhenius A b E) reaction))"

definition perturb_reaction :: "string \<Rightarrow> real \<Rightarrow> bool \<Rightarrow> reaction \<Rightarrow> error + reaction" where
  "perturb_reaction ty new_value no_fall reaction =
     (if str_in ''pressure'' ty then
        (case high_rate reaction of Inl e \<Rightarrow> Inl e | Inr highrate \<Rightarrow>
         (case low_rate reaction of Inl e \<Rightarrow> Inl e | Inr lowrate \<Rightarrow>
          (case perturb_high ty new_value highrate reaction of Inl e \<Rightarrow> Inl e
           | Inr (reaction', perturbation) \<Rightarrow>
               perturb_low ty new_value no_fall perturbation lowrate reaction')))
      else perturb_plain ty new_value reaction)"

text \<open>
  \<^verbatim>\<open>perturb_parameter(parameter_id, new_value)\<close>. Every exception is raised before
  the reaction object is assigned to, so a failed call leaves the model as it was.
\<close>

definition perturb_parameter :: "int \<Rightarrow> real \<Rightarrow> 'a model_scheme \<Rightarrow> error + 'a model_scheme" where
  "perturb_parameter parameter_id new_value m =
     (case py_index (model_parameter_info m) parameter_id of Inl e \<Rightarrow> Inl e | Inr param_info \<Rightarrow>
      (case gas m of None \<Rightarrow> Inl AttributeError | Some g \<Rightarrow>
       (case reaction_at g (reaction_number param_info) of Inl e \<Rightarrow> Inl e | Inr reaction \<Rightarrow>
        (case perturb_reaction (parameter_type param_info) new_value (no_falloff m) reaction of
           Inl e \<Rightarrow> Inl e
         | Inr reaction' \<Rightarrow>
            (case modify_reaction (reaction_number param_info) reaction' g of Inl e \<Rightarrow> Inl e
             | Inr g' \<Rightarrow> Inr (m\<lparr>gas := Some g'\<rparr>))))))"

section \<open>Finite-difference sensitivity (base class)\<close>

text \<open>
  \<^verbatim>\<open>CanteraChemistryModel.sensitivity\<close> calls \<^verbatim>\<open>self.evaluate()\<close>,
  \<^verbatim>\<open>self.save_restart()\<close> and \<^verbatim>\<open>self.load_restart()\<close>, which a subclass
  supplies (the base class has no \<^verbatim>\<open>evaluate\<close>; its two restart methods are
  \<^verbatim>\<open>pass\<close>). They are the three fields of \<open>methods\<close>. A method returns the
  model as it left it together with its result: the value or the exception raised.
\<close>

record 'a methods =
  evaluate_of :: "'a model_scheme \<Rightarrow> (error + real) \<times> 'a model_scheme"
  save_restart_of :: "'a model_scheme \<Rightarrow> error option \<times> 'a model_scheme"
  load_restart_of :: "'a model_scheme \<Rightarrow> error option \<times> 'a model_scheme"

text \<open>The two placeholders of the base class.\<close>

definition base_load_restart :: "'a model_scheme \<Rightarrow> error option \<times> 'a model_scheme" where
  "base_load_restart m = (None, m)"

definition base_save_restart :: "'a model_scheme \<Rightarrow> error option \<times> 'a model_scheme" where
  "base_save_restart m = (None, m)"

definition base_ignore_restart :: "'a model_scheme \<Rightarrow> 'a model_scheme" where
  "base_ignore_restart m = m"

text \<open>
  The body of the loop for one \<^verbatim>\<open>param_id\<close>: the sensitivity coefficient, or
  the exception, and the model at that point. \<^verbatim>\<open>evaluate\<close> is taken to return a
  Python float, as its docstring says, so the last division raises on a zero divisor.
\<close>

definition sens_step ::
  "'a methods \<Rightarrow> real \<Rightarrow> real \<Rightarrow> real \<Rightarrow> real \<Rightarrow> int \<Rightarrow> 'a model_scheme
     \<Rightarrow> (error + real) \<times> 'a model_scheme" where
  "sens_step ms perturbation val pos_mult neg_mult param_id m =
     (case py_index (model_parameter_info m) param_id of Inl e \<Rightarrow> (Inl e, m) | Inr info \<Rightarrow>
      (case get_parameter m param_id of Inl e \<Rightarrow> (Inl e, m) | Inr mult_base \<Rightarrow>
       (case perturb_parameter param_id (pos_mult * mult_base) m of Inl e \<Rightarrow> (Inl e, m) | Inr m1 \<Rightarrow>
        (case evaluate_of ms m1 of (Inl e, m2) \<Rightarrow> (Inl e, m2) | (Inr valuep, m2) \<Rightarrow>
         (case perturb_parameter param_id (neg_mult * mult_base) m2 of Inl e \<Rightarrow> (Inl e, m2) | Inr m3 \<Rightarrow>
          (case load_restart_of ms m3 of (Some e, m4) \<Rightarrow> (Inl e, m4) | (None, m4) \<Rightarrow>
           (case evaluate_of ms m4 of (Inl e, m5) \<Rightarrow> (Inl e, m5) | (Inr valuem, m5) \<Rightarrow>
            (case perturb_parameter param_id mult_base m5 of Inl e \<Rightarrow> (Inl e, m5) | Inr m6 \<Rightarrow>
             (case py_div (valuep - valuem) (2 * perturbation * val) of
                Inl e \<Rightarrow> (Inl e, m6)
              | Inr sensitivity \<Rightarrow>
                 (Inr sensitivity,
                  emit (WriteRow param_id valuep valuem sensitivity (parameter_name info)) m6))))))))))"

text \<open>The loop, with \<^verbatim>\<open>sensitivity_list\<close> as accumulator.\<close>

fun sens_loop ::
  "'a methods \<Rightarrow> real \<Rightarrow> real \<Rightarrow> real \<Rightarrow> real \<Rightarrow> int list \<Rightarrow> real list \<Rightarrow> 'a model_scheme
     \<Rightarrow> (error + real list) \<times> 'a model_scheme" where
  "sens_loop ms perturbation val pos_mult neg_mult [] sensitivity_list m = (Inr sensitivity_list, m)"
| "sens_loop ms perturbation val pos_mult neg_mult (param_id # rest) sensitivity_list m =
     (case sens_step ms perturbation val pos_mult neg_mult param_id m of
        (Inl e, m') \<Rightarrow> (Inl e, m')
      | (Inr sensitivity, m') \<Rightarrow>
          sens_loop ms perturbation val pos_mult neg_mult rest (sensitivity_list @ [sensitivity]) m')"

text \<open>
  The statements before the loop: the baseline evaluation, the restart save, the value
  line, the two multipliers, the header line. The result is the baseline value with the
  two multipliers.
\<close>

definition sens_prologue ::
  "'a methods \<Rightarrow> real \<Rightarrow> 'a model_scheme \<Rightarrow> (error + real \<times> real \<times> real) \<times> 'a model_scheme" where
  "sens_prologue ms perturbation m =
     (case evaluate_of ms m of (Inl e, m1) \<Rightarrow> (Inl e, m1) | (Inr val, m1) \<Rightarrow>
      (case save_restart_of ms m1 of (Some e, m2) \<Rightarrow> (Inl e, m2) | (None, m2) \<Rightarrow>
       (let m3 = emit (WriteValue val) m2;
            pos_mult = 1 + perturbation
        in case py_div 1 pos_mult of Inl e \<Rightarrow> (Inl e, m3) | Inr neg_mult \<Rightarrow>
            (Inr (val, pos_mult, neg_mult),
             emit (WriteHeader ''Rxn  Value+       Value-           Sensitivi   Reaction Name'') m3))))"

text \<open>\<^verbatim>\<open>sensitivity(perturbation, parameter_list, logfile)\<close>.\<close>

definition sensitivity ::
  "'a methods \<Rightarrow> real \<Rightarrow> int list \<Rightarrow> 'a model_scheme
     \<Rightarrow> (error + real \<times> real list) \<times> 'a model_scheme" where
  "sensitivity ms perturbation parameter_list m =
     (case sens_prologue ms perturbation m of
        (Inl e, m1) \<Rightarrow> (Inl e, m1)
      | (Inr (val, pos_mult, neg_mult), m1) \<Rightarrow>
         (case sens_loop ms perturbation val pos_mult neg_mult parameter_list []
                 (m1\<lparr>sens_flag := True\<rparr>) of
            (Inl e, m2) \<Rightarrow> (Inl e, m2)
          | (Inr sensitivity_list, m2) \<Rightarrow>
              (Inr (val, sensitivity_list), m2\<lparr>sens_flag := False\<rparr>)))"

section \<open>The flame-speed model\<close>

text \<open>
  \<^verbatim>\<open>FlameSpeed\<close> adds four attributes to the base class: the initial grid, the
  log level, the name of the restart file and the restart flag \<^verbatim>\<open>_restart\<close>
  (\<open>None\<close> or \<open>Some True\<close>). \<open>files\<close> is the storage the restart files live in,
  of a type the model does not look into.
\<close>

record 'fs flame_speed = model +
  initial_grid :: "real list"
  loglevel :: int
  savefile :: string
  restart :: "bool option"
  files :: 'fs

text \<open>
  The flame solver, as far as \<^verbatim>\<open>flame_speed.py\<close> calls it. \<open>ct_solve\<close> is
  \<^verbatim>\<open>simulation.solve(loglevel, refine_grid)\<close> on the mechanism the flame was built
  over; \<open>ct_restore\<close> and \<open>ct_save\<close> read and write a named solution of a restart
  file; \<open>ct_solve_adjoint\<close> is \<^verbatim>\<open>simulation.solve_adjoint(perturb, n, dgdx)\<close>,
  which may call \<open>perturb\<close> on the model any number of times. Each returns the exception
  it raised, if any. Nothing is assumed about what they compute.
\<close>

record 'fs cantera =
  ct_FreeFlame :: "solution \<Rightarrow> real list \<Rightarrow> free_flame"
  ct_solve :: "solution \<Rightarrow> free_flame \<Rightarrow> int \<Rightarrow> bool \<Rightarrow> error option \<times> free_flame"
  ct_restore :: "'fs \<Rightarrow> string \<Rightarrow> string \<Rightarrow> free_flame \<Rightarrow> error option \<times> free_flame"
  ct_save :: "'fs \<Rightarrow> string \<Rightarrow> string \<Rightarrow> string \<Rightarrow> free_flame \<Rightarrow> error option \<times> 'fs"
  ct_solve_adjoint ::
    "(int \<Rightarrow> real \<Rightarrow> 'fs flame_speed \<Rightarrow> error option \<times> 'fs flame_speed) \<Rightarrow> nat \<Rightarrow> real list
       \<Rightarrow> 'fs flame_speed \<Rightarrow> (error + real list) \<times> 'fs flame_speed"

text \<open>\<^verbatim>\<open>initialize_reactor\<close>: the flame over \<^verbatim>\<open>self.gas\<close> and the grid.\<close>

definition initialize_reactor ::
  "'fs cantera \<Rightarrow> 'fs flame_speed \<Rightarrow> error + 'fs flame_speed" where
  "initialize_reactor ct m =
     (case gas m of None \<Rightarrow> Inl CanteraError | Some g \<Rightarrow>
        Inr (m\<lparr>simulation := Some ((ct_FreeFlame ct g (initial_grid m))
               \<lparr>steady_tolerances := Some (1 / 10 ^ 5, 1 / 10 ^ 12),
                transient_tolerances := Some (1 / 10 ^ 4, 1 / 10 ^ 12),
                bounds_Y := Some (- (1 / 10 ^ 5), 1)\<rparr>)\<rparr>))"

text \<open>An assignment to attributes of \<^verbatim>\<open>self.simulation\<close>.\<close>

definition sim_update ::
  "(free_flame \<Rightarrow> free_flame) \<Rightarrow> 'fs flame_speed \<Rightarrow> 'fs flame_speed" where
  "sim_update f m = m\<lparr>simulation := map_option f (simulation m)\<rparr>"

text \<open>One call \<^verbatim>\<open>self.simulation.solve(loglevel=ll, refine_grid=rg)\<close>.\<close>

definition solve_call ::
  "'fs cantera \<Rightarrow> int \<Rightarrow> bool \<Rightarrow> 'fs flame_speed \<Rightarrow> error option \<times> 'fs flame_speed" where
  "solve_call ct ll rg m =
     (case simulation m of None \<Rightarrow> (Some AttributeError, m) | Some sim \<Rightarrow>
      (case gas m of None \<Rightarrow> (Some CanteraError, m) | Some g \<Rightarrow>
        (let res = ct_solve ct g sim ll rg
         in (fst res, emit (Solve ll rg (fst res)) (m\<lparr>simulation := Some (snd res)\<rparr>)))))"

text \<open>One call \<^verbatim>\<open>self.simulation.restore(filename, name)\<close>.\<close>

definition restore_call ::
  "'fs cantera \<Rightarrow> string \<Rightarrow> string \<Rightarrow> 'fs flame_speed \<Rightarrow> error option \<times> 'fs flame_speed" where
  "restore_call ct filename name m =
     (case simulation m of None \<Rightarrow> (Some AttributeError, m) | Some sim \<Rightarrow>
        (let res = ct_restore ct (files m) filename name sim
         in (fst res, emit (Restore filename name (fst res)) (m\<lparr>simulation := Some (snd res)\<rparr>))))"

text \<open>One call \<^verbatim>\<open>self.simulation.save(filename, name, description)\<close>.\<close>

definition save_call ::
  "'fs cantera \<Rightarrow> string \<Rightarrow> string \<Rightarrow> string \<Rightarrow> 'fs flame_speed
     \<Rightarrow> error option \<times> 'fs flame_speed" where
  "save_call ct filename name description m =
     (case simulation m of None \<Rightarrow> (Some AttributeError, m) | Some sim \<Rightarrow>
        (let res = ct_save ct (files m) filename name description sim
         in (fst res, emit (Save filename name description (fst res)) (m\<lparr>files := snd res\<rparr>))))"

text \<open>
  The nested \<^verbatim>\<open>try ... except\<close> of the first two stages: a solve, on any exception
  a message and a second solve, on any exception of that one a message.
\<close>

definition solve_with_retry :: "'fs cantera \<Rightarrow> bool \<Rightarrow> 'fs flame_speed \<Rightarrow> 'fs flame_speed" where
  "solve_with_retry ct rg m =
     (case solve_call ct (loglevel m) rg m of
        (None, m1) \<Rightarrow> m1
      | (Some e, m1) \<Rightarrow>
         (case solve_call ct (loglevel m1) rg
                 (emit (Print ''As predicted, first attempt failed, trying one more time'') m1) of
            (None, m2) \<Rightarrow> m2
          | (Some e2, m2) \<Rightarrow> emit (Print ''Could not find a solution'') m2))"

text \<open>The single \<^verbatim>\<open>try ... except\<close> of the third stage and of the restart path.\<close>

definition solve_guarded :: "'fs cantera \<Rightarrow> bool \<Rightarrow> 'fs flame_speed \<Rightarrow> 'fs flame_speed" where
  "solve_guarded ct rg m =
     (case solve_call ct (loglevel m) rg m of
        (None, m1) \<Rightarrow> m1
      | (Some e, m1) \<Rightarrow> emit (Print ''Could not find a solution'') m1)"

definition print_bool :: "bool \<Rightarrow> string" where
  "print_bool b = (if b then ''True'' else ''False'')"

text \<open>The three stages of the first branch of \<^verbatim>\<open>evaluate\<close>.\<close>

definition stage1 :: "'fs cantera \<Rightarrow> 'fs flame_speed \<Rightarrow> 'fs flame_speed" where
  "stage1 ct m =
     (let m1 = sim_update (\<lambda>s. s\<lparr>energy_enabled := False, transport_model := ''Mix'',
                                 max_jac_age := Some (10, 10),
                                 time_step := Some (1 / 10 ^ 5, [2, 5, 10, 20])\<rparr>) m;
          m2 = (case simulation m1 of None \<Rightarrow> m1 | Some s \<Rightarrow>
                  emit (Print (transport_model s)) (emit (Print (print_bool (energy_enabled s))) m1));
          m3 = emit (Print ''Mixture-averaged solution, no energy equation, no grid refinement'') m2
      in solve_with_retry ct False m3)"

definition stage2 :: "'fs cantera \<Rightarrow> 'fs flame_speed \<Rightarrow> 'fs flame_speed" where
  "stage2 ct m =
     (let m1 = emit (Print ''Mixture-averaged solution, enable energy equation and grid refinement'') m;
          m2 = sim_update (\<lambda>s. s\<lparr>energy_enabled := True,
                                 refine_criteria := Some (10, 6 / 100, 8 / 100, 0)\<rparr>) m1
      in solve_with_retry ct True m2)"

definition stage3 :: "'fs cantera \<Rightarrow> 'fs flame_speed \<Rightarrow> 'fs flame_speed" where
  "stage3 ct m =
     (let m1 = emit (Print ''Multicomponent solution'') m;
          m2 = sim_update (\<lambda>s. s\<lparr>transport_model := ''Multi'', soret_enabled := True,
                                 refine_criteria := Some (10, 6 / 100, 8 / 100, 1 / 10 ^ 4)\<rparr>) m1
      in solve_guarded ct True m2)"

definition cold_start :: "'fs cantera \<Rightarrow> 'fs flame_speed \<Rightarrow> 'fs flame_speed" where
  "cold_start ct m = stage3 ct (stage2 ct (stage1 ct m))"

text \<open>The branch for \<^verbatim>\<open>_sens_flag\<close>: one solve outside any \<^verbatim>\<open>try\<close>.\<close>

definition sens_solve :: "'fs cantera \<Rightarrow> 'fs flame_speed \<Rightarrow> error option \<times> 'fs flame_speed" where
  "sens_solve ct m =
     solve_call ct 0 False
       (sim_update (\<lambda>s. s\<lparr>energy_enabled := True, transport_model := ''Multi'',
                           soret_enabled := True\<rparr>) m)"

text \<open>The last branch: the restart solution is loaded (outside any \<^verbatim>\<open>try\<close>), then one guarded solve.\<close>

definition restart_solve :: "'fs cantera \<Rightarrow> 'fs flame_speed \<Rightarrow> error option \<times> 'fs flame_speed" where
  "restart_solve ct m =
     (case restore_call ct (savefile m) ''restart'' m of
        (Some e, m1) \<Rightarrow> (Some e, m1)
      | (None, m1) \<Rightarrow>
         (None, solve_guarded ct False
            (sim_update (\<lambda>s. s\<lparr>energy_enabled := True, transport_model := ''Multi'',
                                soret_enabled := True,
                                refine_criteria := Some (10, 6 / 100, 8 / 100, 1 / 10 ^ 4)\<rparr>) m1)))"

text \<open>
  \<^verbatim>\<open>FlameSpeed.evaluate\<close>. \<open>u0\<close> stands for \<^verbatim>\<open>self.simulation.u[0]\<close>; the
  result is that velocity divided by \<^verbatim>\<open>1.0e-2\<close>.
\<close>

definition evaluate ::
  "'fs cantera \<Rightarrow> 'fs flame_speed \<Rightarrow> (error + real) \<times> 'fs flame_speed" where
  "evaluate ct m0 =
     (let m1 = (if gas m0 = None then initialize_chemistry m0 else m0)
      in case (if simulation m1 = None then initialize_reactor ct m1 else Inr m1) of
           Inl e \<Rightarrow> (Inl e, m1)
         | Inr m2 \<Rightarrow>
            (case (if restart m2 = None \<and> sens_flag m2 = False then (None, cold_start ct m2)
                   else if sens_flag m2 = True then sens_solve ct m2
                   else restart_solve ct m2) of
               (Some e, m3) \<Rightarrow> (Inl e, m3)
             | (None, m3) \<Rightarrow>
                (case simulation m3 of None \<Rightarrow> (Inl AttributeError, m3)
                 | Some sim \<Rightarrow> (Inr (u0 sim / (1 / 100)), m3))))"

text \<open>
  \<^verbatim>\<open>load_restart\<close>, \<^verbatim>\<open>save_restart\<close> (a \<open>None\<close> file name stands for the
  default, \<^verbatim>\<open>self.savefile\<close>) and \<^verbatim>\<open>ignore_restart\<close>.
\<close>

definition load_restart ::
  "'fs cantera \<Rightarrow> string option \<Rightarrow> string \<Rightarrow> 'fs flame_speed \<Rightarrow> error option \<times> 'fs flame_speed" where
  "load_restart ct filename solution_name m =
     (let fname = (case filename of None \<Rightarrow> savefile m | Some f \<Rightarrow> f)
      in case restore_call ct fname solution_name m of
           (Some e, m1) \<Rightarrow> (Some e, m1)
         | (None, m1) \<Rightarrow> (None, m1\<lparr>restart := Some True\<rparr>))"

definition save_restart ::
  "'fs cantera \<Rightarrow> string option \<Rightarrow> string \<Rightarrow> string \<Rightarrow> 'fs flame_speed
     \<Rightarrow> error option \<times> 'fs flame_speed" where
  "save_restart ct filename solution_name description m =
     (let fname = (case filename of None \<Rightarrow> savefile m | Some f \<Rightarrow> f)
      in case save_call ct fname solution_name description m of
           (Some e, m1) \<Rightarrow> (Some e, m1)
         | (None, m1) \<Rightarrow> (None, m1\<lparr>restart := Some True\<rparr>))"

definition ignore_restart :: "'fs flame_speed \<Rightarrow> 'fs flame_speed" where
  "ignore_restart m = m\<lparr>restart := None\<rparr>"

text \<open>The three methods as the base class's \<^verbatim>\<open>sensitivity\<close> would call them on a flame-speed model.\<close>

definition flame_methods :: "'fs cantera \<Rightarrow> \<lparr>initial_grid :: real list, loglevel :: int,
    savefile :: string, restart :: bool option, files :: 'fs\<rparr> methods" where
  "flame_methods ct =
     \<lparr>evaluate_of = evaluate ct,
      save_restart_of = save_restart ct None ''restart'' ''Base solution for this flame speed'',
      load_restart_of = load_restart ct None ''restart''\<rparr>"

text \<open>
  \<^verbatim>\<open>np.linspace(0, domain_length, initial_points)\<close> and the constructor: the base
  class's constructor, then the four attributes.
\<close>

definition linspace :: "real \<Rightarrow> real \<Rightarrow> nat \<Rightarrow> real list" where
  "linspace a b n =
     (if n = 1 then [a] else map (\<lambda>i. a + real i * ((b - a) / real (n - 1))) [0..<n])"

definition flame_speed_init ::
  "state_definition \<Rightarrow> reaction list \<Rightarrow> real \<Rightarrow> nat \<Rightarrow> int \<Rightarrow> string \<Rightarrow> 'fs
     \<Rightarrow> bool \<Rightarrow> bool \<Rightarrow> bool \<Rightarrow> error + 'fs flame_speed" where
  "flame_speed_init st mech domain_length initial_points ll name fs no_eff no_en no_fall =
     (case init_model st mech no_eff no_en no_fall of
        Inl e \<Rightarrow> Inl e
      | Inr m \<Rightarrow>
          Inr (model.extend m
                 (flame_speed.fields (linspace 0 domain_length initial_points) ll
                    (name @ ''.xml'') None fs)))"

section \<open>Adjoint sensitivity (flame-speed model)\<close>

text \<open>The nested function \<^verbatim>\<open>perturb(sim, i, dp)\<close> handed to the solver.\<close>

definition perturb_callback ::
  "int list \<Rightarrow> int \<Rightarrow> real \<Rightarrow> 'a model_scheme \<Rightarrow> error option \<times> 'a model_scheme" where
  "perturb_callback parameter_list i dp m =
     (case py_index parameter_list i of Inl e \<Rightarrow> (Some e, m) | Inr param_id \<Rightarrow>
      (case get_parameter m param_id of Inl e \<Rightarrow> (Some e, m) | Inr mult_base \<Rightarrow>
       (let new_value = 1 + dp
        in case perturb_parameter param_id new_value m of
             Inl e \<Rightarrow> (Some e, m)
           | Inr m' \<Rightarrow> (None, m'))))"

text \<open>The closing loop that writes one line per parameter.\<close>

fun write_rows :: "(int \<times> real) list \<Rightarrow> 'a model_scheme \<Rightarrow> error option \<times> 'a model_scheme" where
  "write_rows [] m = (None, m)"
| "write_rows ((param_id, s) # rows) m =
     (case py_index (model_parameter_info m) param_id of
        Inl e \<Rightarrow> (Some e, m)
      | Inr info \<Rightarrow> write_rows rows (emit (WriteAdjointRow param_id s (parameter_name info)) m))"

text \<open>
  \<^verbatim>\<open>FlameSpeed.sensitivity\<close>. The division of the solver's array by \<^verbatim>\<open>Su0\<close> is
  numpy's; for \<^verbatim>\<open>Su0 = 0\<close> numpy gives infinities where \<open>real\<close> division gives 0,
  and nothing below is stated about that case.
\<close>

definition adjoint_sensitivity ::
  "'fs cantera \<Rightarrow> real \<Rightarrow> int list \<Rightarrow> 'fs flame_speed
     \<Rightarrow> (error + real \<times> real list) \<times> 'fs flame_speed" where
  "adjoint_sensitivity ct perturbation parameter_list m =
     (case evaluate ct m of (Inl e, m1) \<Rightarrow> (Inl e, m1) | (Inr val, m1) \<Rightarrow>
      (case simulation m1 of None \<Rightarrow> (Inl AttributeError, m1) | Some sim \<Rightarrow>
       (let Nvars = sum_list (map (\<lambda>d. fst d * snd d) (domains sim));
            i_Su = inlet_n_components sim + flame_u_index sim
        in if Nvars \<le> i_Su then (Inl IndexError, m1)
           else
            (let dgdx = (replicate Nvars 0)[i_Su := 1];
                 Su0 = u0 sim
             in case ct_solve_adjoint ct (perturb_callback parameter_list)
                       (length parameter_list) dgdx m1 of
                  (Inl e, m2) \<Rightarrow> (Inl e, m2)
                | (Inr sens, m2) \<Rightarrow>
                   (let full_sensitivity = map (\<lambda>s. s / Su0) sens;
                        m3 = emit (WriteHeader ''Rxn  Sensitivity   Reaction Name'')
                               (emit (WriteValue val) m2)
                    in case write_rows (zip parameter_list full_sensitivity) m3 of
                         (Some e, m4) \<Rightarrow> (Inl e, m4)
                       | (None, m4) \<Rightarrow> (Inr (val, full_sensitivity), m4))))))"

section \<open>The finite-difference routine as the specification words it\<close>

text \<open>
  Written from the specification's description of the routine, one definition per phrase,
  to be compared with \<open>sensitivity\<close> above. \<open>plus\<close>: the parameter is perturbed to
  \<open>value * (1 + perturbation_fraction)\<close> and the model evaluated.
\<close>

definition spec_plus ::
  "'a methods \<Rightarrow> real \<Rightarrow> int \<Rightarrow> real \<Rightarrow> 'a model_scheme \<Rightarrow> (error + real) \<times> 'a model_scheme" where
  "spec_plus ms perturbation_fraction param_id current m =
     (case perturb_parameter param_id (current * (1 + perturbation_fraction)) m of
        Inl e \<Rightarrow> (Inl e, m)
      | Inr m' \<Rightarrow> evaluate_of ms m')"

text \<open>
  \<open>minus\<close>: the parameter is perturbed to \<open>value * (1 / (1 + perturbation_fraction))\<close>,
  the saved restart point is reloaded, then the model is evaluated.
\<close>

definition spec_minus ::
  "'a methods \<Rightarrow> real \<Rightarrow> int \<Rightarrow> real \<Rightarrow> 'a model_scheme \<Rightarrow> (error + real) \<times> 'a model_scheme" where
  "spec_minus ms perturbation_fraction param_id current m =
     (case py_div 1 (1 + perturbation_fraction) of Inl e \<Rightarrow> (Inl e, m) | Inr inverse_factor \<Rightarrow>
      (case perturb_parameter param_id (current * inverse_factor) m of
         Inl e \<Rightarrow> (Inl e, m)
       | Inr m' \<Rightarrow>
          (case load_restart_of ms m' of
             (Some e, m'') \<Rightarrow> (Inl e, m'')
           | (None, m'') \<Rightarrow> evaluate_of ms m'')))"

text \<open>The central difference \<open>(plus - minus) / (2 * perturbation_fraction * baseline_value)\<close>.\<close>

definition central_difference :: "real \<Rightarrow> real \<Rightarrow> real \<Rightarrow> real \<Rightarrow> error + real" where
  "central_difference value_plus value_minus perturbation_fraction baseline_value =
     py_div (value_plus - value_minus) (2 * perturbation_fraction * baseline_value)"

text \<open>
  One parameter: read the current value, take \<open>plus\<close> and \<open>minus\<close>, restore the
  parameter to the value read, record the coefficient with its log line.
\<close>

definition spec_parameter ::
  "'a methods \<Rightarrow> real \<Rightarrow> real \<Rightarrow> int \<Rightarrow> 'a model_scheme \<Rightarrow> (error + real) \<times> 'a model_scheme" where
  "spec_parameter ms perturbation_fraction baseline_value param_id m =
     (case py_index (model_parameter_info m) param_id of Inl e \<Rightarrow> (Inl e, m) | Inr descriptor \<Rightarrow>
      (case get_parameter m param_id of Inl e \<Rightarrow> (Inl e, m) | Inr current \<Rightarrow>
       (case spec_plus ms perturbation_fraction param_id current m of
          (Inl e, m1) \<Rightarrow> (Inl e, m1)
        | (Inr value_plus, m1) \<Rightarrow>
           (case spec_minus ms perturbation_fraction param_id current m1 of
              (Inl e, m2) \<Rightarrow> (Inl e, m2)
            | (Inr value_minus, m2) \<Rightarrow>
               (case perturb_parameter param_id current m2 of
                  Inl e \<Rightarrow> (Inl e, m2)
                | Inr m3 \<Rightarrow>
                   (case central_difference value_plus value_minus perturbation_fraction baseline_value of
                      Inl e \<Rightarrow> (Inl e, m3)
                    | Inr coefficient \<Rightarrow>
                       (Inr coefficient,
                        emit (WriteRow param_id value_plus value_minus coefficient (parameter_name descriptor))
                          m3)))))))"

text \<open>The coefficients of the requested ids, in the order of the ids.\<close>

fun spec_vector ::
  "'a methods \<Rightarrow> real \<Rightarrow> real \<Rightarrow> int list \<Rightarrow> 'a model_scheme
     \<Rightarrow> (error + real list) \<times> 'a model_scheme" where
  "spec_vector ms perturbation_fraction baseline_value [] m = (Inr [], m)"
| "spec_vector ms perturbation_fraction baseline_value (param_id # ids) m =
     (case spec_parameter ms perturbation_fraction baseline_value param_id m of
        (Inl e, m1) \<Rightarrow> (Inl e, m1)
      | (Inr coefficient, m1) \<Rightarrow>
         (case spec_vector ms perturbation_fraction baseline_value ids m1 of
            (Inl e, m2) \<Rightarrow> (Inl e, m2)
          | (Inr coefficients, m2) \<Rightarrow> (Inr (coefficient # coefficients), m2)))"

text \<open>
  The whole routine: the baseline value is evaluated once, before any perturbation, and
  saved as restart point; the log gets its value line and header; the in-progress flag is
  set for the per-parameter work and cleared on completion; the baseline value is returned
  with the vector.
\<close>

definition spec_sensitivity ::
  "'a methods \<Rightarrow> real \<Rightarrow> int list \<Rightarrow> 'a model_scheme
     \<Rightarrow> (error + real \<times> real list) \<times> 'a model_scheme" where
  "spec_sensitivity ms perturbation_fraction parameter_ids m =
     (case evaluate_of ms m of (Inl e, m1) \<Rightarrow> (Inl e, m1) | (Inr baseline_value, m1) \<Rightarrow>
      (case save_restart_of ms m1 of (Some e, m2) \<Rightarrow> (Inl e, m2) | (None, m2) \<Rightarrow>
       (let m3 = emit (WriteHeader ''Rxn  Value+       Value-           Sensitivi   Reaction Name'')
                   (emit (WriteValue baseline_value) m2)
        in case spec_vector ms perturbation_fraction baseline_value parameter_ids
                  (m3\<lparr>sens_flag := True\<rparr>) of
             (Inl e, m4) \<Rightarrow> (Inl e, m4)
           | (Inr coefficients, m4) \<Rightarrow>
               (Inr (baseline_value, coefficients), m4\<lparr>sens_flag := False\<rparr>))))"

text \<open>
  The subclass's methods with a check in front of \<open>evaluate\<close> and
  \<open>load_restart\<close>: the call is made only when the in-progress flag is set, and
  raises \<open>AssertionError\<close> otherwise.
\<close>

definition with_flag_check :: "'a methods \<Rightarrow> 'a methods" where
  "with_flag_check ms =
     ms\<lparr>evaluate_of := (\<lambda>s. if sens_flag s then evaluate_of ms s else (Inl AssertionError, s)),
        load_restart_of := (\<lambda>s. if sens_flag s then load_restart_of ms s
                                 else (Some AssertionError, s))\<rparr>"

section \<open>Auxiliary notions for the properties\<close>

text \<open>The seven parameter types the catalog builder writes.\<close>

definition catalog_types :: "string set" where
  "catalog_types = {''A_factor'', ''Energy'', ''High_pressure_A'', ''High_pressure_E'',
     ''Low_pressure_A'', ''Low_pressure_E'', ''Efficiency''}"

definition kept :: "param_info \<Rightarrow> bool" where
  "kept p = (parameter_type p = ''A_factor'' \<or> parameter_type p = ''High_pressure_A'')"

definition key :: "param_info \<Rightarrow> nat \<times> string" where
  "key p = (reaction_number p, parameter_type p)"

text \<open>
  A caller making a sequence of \<^verbatim>\<open>perturb_parameter\<close> calls; a call that raises
  leaves the model as it was and the caller goes on.
\<close>

fun perturb_all :: "(int \<times> real) list \<Rightarrow> 'a model_scheme \<Rightarrow> 'a model_scheme" where
  "perturb_all [] m = m"
| "perturb_all ((parameter_id, new_value) # calls) m =
     (case perturb_parameter parameter_id new_value m of
        Inl e \<Rightarrow> perturb_all calls m
      | Inr m' \<Rightarrow> perturb_all calls m')"

text \<open>
  The reactions of the live mechanism after a call: \<open>None\<close> when the call raised or
  the mechanism is absent.
\<close>

definition gas_reactions :: "error + 'a model_scheme \<Rightarrow> reaction list option" where
  "gas_reactions res = (case res of Inl e \<Rightarrow> None | Inr m \<Rightarrow> map_option reactions (gas m))"

text \<open>The mechanism a \<^verbatim>\<open>perturb_parameter\<close> call installs; the call changes nothing else.\<close>

definition perturb_gas :: "int \<Rightarrow> real \<Rightarrow> 'a model_scheme \<Rightarrow> error + solution" where
  "perturb_gas parameter_id new_value m =
     (case perturb_parameter parameter_id new_value m of
        Inl e \<Rightarrow> Inl e
      | Inr m' \<Rightarrow> (case gas m' of None \<Rightarrow> Inl AttributeError | Some g' \<Rightarrow> Inr g'))"

text \<open>The subclass's methods leave the in-progress flag alone.\<close>

definition keeps_flag :: "'a methods \<Rightarrow> bool" where
  "keeps_flag ms =
     ((\<forall>s. sens_flag (snd (evaluate_of ms s)) = sens_flag s)
      \<and> (\<forall>s. sens_flag (snd (save_restart_of ms s)) = sens_flag s)
      \<and> (\<forall>s. sens_flag (snd (load_restart_of ms s)) = sens_flag s))"

text \<open>The subclass's methods leave the catalog alone.\<close>

definition keeps_catalog :: "'a methods \<Rightarrow> bool" where
  "keeps_catalog ms =
     ((\<forall>s. model_parameter_info (snd (evaluate_of ms s)) = model_parameter_info s)
      \<and> (\<forall>s. model_parameter_info (snd (load_restart_of ms s)) = model_parameter_info s))"

text \<open>
  What a solve with one retry emits: a solve that returns; or a solve that raises, the
  retry message and a solve that returns; or two solves that raise, each followed by its
  message.
\<close>

definition retry_trace :: "int \<Rightarrow> bool \<Rightarrow> event list \<Rightarrow> bool" where
  "retry_trace ll rg evs =
     (evs = [Solve ll rg None]
      \<or> (\<exists>e. evs = [Solve ll rg (Some e),
                     Print ''As predicted, first attempt failed, trying one more time'',
                     Solve ll rg None])
      \<or> (\<exists>e e2. evs = [Solve ll rg (Some e),
                        Print ''As predicted, first attempt failed, trying one more time'',
                        Solve ll rg (Some e2),
                        Print ''Could not find a solution'']))"

text \<open>What a single guarded solve emits: the solve, and the message when it raised.\<close>

definition guarded_trace :: "int \<Rightarrow> bool \<Rightarrow> event list \<Rightarrow> bool" where
  "guarded_trace ll rg evs =
     (evs = [Solve ll rg None]
      \<or> (\<exists>e. evs = [Solve ll rg (Some e), Print ''Could not find a solution'']))"

text \<open>What the three-stage continuation emits.\<close>

definition cold_trace :: "int \<Rightarrow> event list \<Rightarrow> bool" where
  "cold_trace ll evs =
     (\<exists>t1 t2 t3.
        evs = [Print ''False'', Print ''Mix'',
               Print ''Mixture-averaged solution, no energy equation, no grid refinement'']
              @ t1
              @ [Print ''Mixture-averaged solution, enable energy equation and grid refinement'']
              @ t2
              @ [Print ''Multicomponent solution'']
              @ t3
        \<and> retry_trace ll False t1 \<and> retry_trace ll True t2 \<and> guarded_trace ll True t3)"

text \<open>The model \<open>m'\<close> is \<open>m\<close> with another state of the flame object and \<open>evs\<close> emitted.\<close>

definition sim_steps :: "'fs flame_speed \<Rightarrow> event list \<Rightarrow> 'fs flame_speed \<Rightarrow> bool" where
  "sim_steps m evs m' = (\<exists>s. m' = m\<lparr>simulation := Some s, emitted := emitted m @ evs\<rparr>)"

definition is_restore :: "event \<Rightarrow> bool" where
  "is_restore ev = (case ev of Restore f n r \<Rightarrow> True | _ \<Rightarrow> False)"

definition is_solve :: "event \<Rightarrow> bool" where
  "is_solve ev = (case ev of Solve ll rg r \<Rightarrow> True | _ \<Rightarrow> False)"

section \<open>Example data\<close>

text \<open>
  A small mechanism with one reaction of each of the four classes the catalog builder
  handles, used to evaluate the definitions on concrete inputs.
\<close>

definition example_state :: state_definition where
  "example_state = \<lparr>T = 300, P = 101325, composition = ''CH4:1, O2:2, N2:7.52''\<rparr>"

definition elementary_example :: reaction where
  "elementary_example = ElementaryReaction ''H+O2<=>O+OH'' (Arrhenius 5 0 2)"

definition three_body_example :: reaction where
  "three_body_example =
     ThreeBodyReaction ''2O+M<=>O2+M'' (Arrhenius 7 (-1) 0)
       \<lparr>efficiencies = [(''AR'', 0.83), (''H2'', 0), (''H2O'', 15.4)], default_efficiency = 1\<rparr>"

definition falloff_example :: reaction where
  "falloff_example =
     FalloffReaction ''H+O2(+M)<=>HO2(+M)'' (Arrhenius 2 0 1) (Arrhenius 3 (-1) 4)
       \<lparr>efficiencies = [(''AR'', 0.7)], default_efficiency = 1\<rparr>"

definition chemically_activated_example :: reaction where
  "chemically_activated_example =
     ChemicallyActivatedReaction ''CH3+OH(+M)<=>CH2O+H2(+M)'' (Arrhenius 2 0 1) (Arrhenius 3 (-1) 4)
       \<lparr>efficiencies = [(''AR'', 0.7)], default_efficiency = 1\<rparr>"

definition example_mechanism :: "reaction list" where
  "example_mechanism =
     [elementary_example, three_body_example, falloff_example, chemically_activated_example]"

text \<open>
  The model built from the falloff reaction alone with all three flags off, as the
  constructor leaves it (mechanism blanked, catalog of five entries).
\<close>

definition falloff_catalog :: "param_info list" where
  "falloff_catalog =
     [entry 0 ''High_pressure_A'' ''H+O2(+M)<=>HO2(+M):HpA'',
      entry 0 ''High_pressure_E'' ''H+O2(+M)<=>HO2(+M):HpE'',
      entry 0 ''Low_pressure_A'' ''H+O2(+M)<=>HO2(+M):LpA'',
      entry 0 ''Low_pressure_E'' ''H+O2(+M)<=>HO2(+M):LpE'',
      efficiency_entry 0 ''H+O2(+M)<=>HO2(+M)'' ''AR'']"

definition falloff_model :: model where
  "falloff_model =
     \<lparr>initial = example_state, chemistry_model = [falloff_example], sens_flag = False,
      no_efficiencies = False, no_energy = False, no_falloff = False,
      gas = None, reactor = None, simulation = None,
      model_parameter_info = falloff_catalog, number_parameters = 5, emitted = []\<rparr>"

text \<open>The record the constructor starts from, for the four-reaction mechanism.\<close>

definition example_blank :: model where
  "example_blank =
     \<lparr>initial = example_state, chemistry_model = example_mechanism, sens_flag = False,
      no_efficiencies = True, no_energy = True, no_falloff = True,
      gas = None, reactor = None, simulation = None,
      model_parameter_info = [], number_parameters = 0, emitted = []\<rparr>"

text \<open>
  A subclass for the base class's routine: its \<^verbatim>\<open>evaluate\<close> returns ten times the
  pre-exponential factor of reaction 0 and fails to converge when that factor exceeds 8;
  it keeps the base class's restart placeholders.
\<close>

definition toy_evaluate :: "model \<Rightarrow> (error + real) \<times> model" where
  "toy_evaluate m0 =
     (let m = (if gas m0 = None then initialize_chemistry m0 else m0)
      in case gas m of None \<Rightarrow> (Inl AttributeError, m) | Some g \<Rightarrow>
         (case reaction_at g 0 of Inl e \<Rightarrow> (Inl e, m) | Inr r \<Rightarrow>
          (case rate r of Inl e \<Rightarrow> (Inl e, m) | Inr ra \<Rightarrow>
             (if pre_exponential_factor ra > 8 then (Inl CanteraError, m)
              else (Inr (10 * pre_exponential_factor ra), m)))))"

definition toy_methods :: "unit methods" where
  "toy_methods =
     \<lparr>evaluate_of = toy_evaluate, save_restart_of = base_save_restart,
      load_restart_of = base_load_restart\<rparr>"

text \<open>The model the constructor returns for the elementary reaction alone, default flags.\<close>

definition toy_model :: model where
  "toy_model =
     \<lparr>initial = example_state, chemistry_model = [elementary_example], sens_flag = False,
      no_efficiencies = True, no_energy = True, no_falloff = True,
      gas = None, reactor = None, simulation = None,
      model_parameter_info = [entry 0 ''A_factor'' ''H+O2<=>O+OH:A''],
      number_parameters = 1, emitted = []\<rparr>"

text \<open>
  A flame solver to run the flame-speed model against. The flame starts with zero velocity.
  A solve raises when the energy equation is off and the velocity is still zero (the first
  attempt of a cold start; it leaves a better starting guess behind), and when the
  pre-exponential factor of reaction 0 exceeds 8 (a mechanism perturbed too far);
  otherwise it returns with the inlet velocity 0.38 m/s. Restart files are a list of
  (file, solution name) pairs. The adjoint solve perturbs each parameter by
  \<open>1 / 10 ^ 5\<close> and then by 0, and returns zeros.
\<close>

definition example_flame :: free_flame where
  "example_flame =
     \<lparr>energy_enabled = False, transport_model = ''Mix'', soret_enabled = False,
      max_jac_age = None, time_step = None, refine_criteria = None,
      steady_tolerances = None, transient_tolerances = None, bounds_Y = None,
      u0 = 0, domains = [(4, 1), (8, 10), (4, 1)], inlet_n_components = 4,
      flame_u_index = 0\<rparr>"

definition example_solve ::
  "solution \<Rightarrow> free_flame \<Rightarrow> int \<Rightarrow> bool \<Rightarrow> error option \<times> free_flame" where
  "example_solve g sim ll rg =
     (if \<not> energy_enabled sim \<and> u0 sim = 0 then (Some CanteraError, sim\<lparr>u0 := 1 / 10\<rparr>)
      else (case reaction_at g 0 of Inl e \<Rightarrow> (Some e, sim) | Inr r \<Rightarrow>
            (case rate r of Inl e \<Rightarrow> (Some e, sim) | Inr ra \<Rightarrow>
               (if pre_exponential_factor ra > 8 then (Some CanteraError, sim)
                else (None, sim\<lparr>u0 := 38 / 100\<rparr>)))))"

fun example_adjoint_loop ::
  "(int \<Rightarrow> real \<Rightarrow> 'm \<Rightarrow> error option \<times> 'm) \<Rightarrow> nat list \<Rightarrow> 'm \<Rightarrow> error option \<times> 'm" where
  "example_adjoint_loop perturb [] m = (None, m)"
| "example_adjoint_loop perturb (i # rest) m =
     (case perturb (int i) (1 / 10 ^ 5) m of
        (Some e, m1) \<Rightarrow> (Some e, m1)
      | (None, m1) \<Rightarrow>
         (case perturb (int i) 0 m1 of
            (Some e, m2) \<Rightarrow> (Some e, m2)
          | (None, m2) \<Rightarrow> example_adjoint_loop perturb rest m2))"

definition example_cantera :: "(string \<times> string) list cantera" where
  "example_cantera =
     \<lparr>ct_FreeFlame = (\<lambda>g grid. example_flame),
      ct_solve = example_solve,
      ct_restore = (\<lambda>fs filename name sim.
         if (filename, name) \<in> set fs then (None, sim) else (Some CanteraError, sim)),
      ct_save = (\<lambda>fs filename name description sim. (None, (filename, name) # fs)),
      ct_solve_adjoint = (\<lambda>perturb n dgdx m.
         case example_adjoint_loop perturb [0..<n] m of
           (Some e, m') \<Rightarrow> (Inl e, m')
         | (None, m') \<Rightarrow> (Inr (replicate n 0), m'))\<rparr>"

text \<open>
  The flame-speed model the constructor returns for the elementary reaction alone, with
  the default keyword arguments, a domain of length 1 and a grid of 3 points.
\<close>

definition flame_model :: "(string \<times> string) list flame_speed" where
  "flame_model =
     \<lparr>initial = example_state, chemistry_model = [elementary_example], sens_flag = False,
      no_efficiencies = True, no_energy = True, no_falloff = True,
      gas = None, reactor = None, simulation = None,
      model_parameter_info = [entry 0 ''A_factor'' ''H+O2<=>O+OH:A''],
      number_parameters = 1, emitted = [],
      initial_grid = [0, 1 / 2, 1], loglevel = 2, savefile = ''soln.xml'', restart = None,
      files = []\<rparr>"

section \<open>Evaluation lemmas\<close>

text \<open>The substring tests of the accessor on the seven catalog types.\<close>

lemma str_in_table:
  "str_in ''pressure'' ''A_factor'' = False" "str_in ''A'' ''A_factor'' = True" "str_in ''E'' ''A_factor'' = False"
  "str_in ''pressure'' ''Energy'' = False" "str_in ''A'' ''Energy'' = False" "str_in ''E'' ''Energy'' = True"
  "str_in ''pressure'' ''Efficiency'' = False" "str_in ''A'' ''Efficiency'' = False" "str_in ''E'' ''Efficiency'' = True"
  "str_in ''pressure'' ''High_pressure_A'' = True" "str_in ''High'' ''High_pressure_A'' = True"
  "str_in ''Low'' ''High_pressure_A'' = False" "str_in ''A'' ''High_pressure_A'' = True" "str_in ''E'' ''High_pressure_A'' = False"
  "str_in ''pressure'' ''High_pressure_E'' = True" "str_in ''High'' ''High_pressure_E'' = True"
  "str_in ''Low'' ''High_pressure_E'' = False" "str_in ''A'' ''High_pressure_E'' = False" "str_in ''E'' ''High_pressure_E'' = True"
  "str_in ''pressure'' ''Low_pressure_A'' = True" "str_in ''High'' ''Low_pressure_A'' = False"
  "str_in ''Low'' ''Low_pressure_A'' = True" "str_in ''A'' ''Low_pressure_A'' = True" "str_in ''E'' ''Low_pressure_A'' = False"
  "str_in ''pressure'' ''Low_pressure_E'' = True" "str_in ''High'' ''Low_pressure_E'' = False"
  "str_in ''Low'' ''Low_pressure_E'' = True" "str_in ''A'' ''Low_pressure_E'' = False" "str_in ''E'' ''Low_pressure_E'' = True"
  by (simp_all add: starts_with_def)

declare str_in.simps [simp del]
declare str_in_table [simp]

lemmas example_defs = example_state_def elementary_example_def three_body_example_def
  falloff_example_def chemically_activated_example_def example_mechanism_def

lemmas catalog_defs = get_reaction_info_def rate_entries_def efficiency_entries_def
  HasThirdBody_def HasFalloff_def reaction_equation_def reaction_at_def entry_def
  efficiency_entry_def efficiency_def Arrhenius_def

lemmas lifecycle_defs = init_model_def prepare_chemistry_def blank_chemistry_def
  initialize_chemistry_def Solution_def get_model_parameter_info_def
  model_parameter_info_full_def include_this_parameter_def

lemmas accessor_defs = get_parameter_def read_reaction_def perturb_parameter_def perturb_reaction_def
  perturb_high_def perturb_low_def perturb_plain_def pick_value_def py_index_def py_div_def
  modify_reaction_def reaction_at_def Arrhenius_def

lemmas example_model_defs = falloff_model_def falloff_catalog_def example_blank_def

lemma falloff_model_constructed:
  "init_model example_state [falloff_example] False False False = Inr falloff_model"
  by (simp add: example_defs example_model_defs catalog_defs lifecycle_defs)

section \<open>Properties of the catalog builder\<close>

lemma efficiency_entries_type8:
  "reaction_type r = 8 \<Longrightarrow> efficiency_entries n name r = Inr []"
  by (simp add: efficiency_entries_def HasThirdBody_def)

lemma efficiency_entries_third_body:
  "reaction_type r = 2 \<or> reaction_type r = 4 \<Longrightarrow> third_body_of r = Inr tb \<Longrightarrow>
   efficiency_entries n name r =
     Inr (map (efficiency_entry n name) (filter (\<lambda>s. efficiency tb s > 0) (map fst (efficiencies tb))))"
  by (auto simp add: efficiency_entries_def HasThirdBody_def)

text \<open>
  Claim C5. A reaction with third-body efficiencies (type codes 2, 4 and 8) gets one
  Efficiency entry per species whose efficiency is strictly positive. The code does so for
  codes 2 and 4 (\<open>efficiency_entries_third_body\<close>) and emits no Efficiency entry at all
  for code 8 (\<open>efficiency_entries_type8\<close>). Evaluated on a chemically activated reaction
  whose only efficiency, for AR, is 0.7: the catalog has the four rate entries and no
  Efficiency entry, where the falloff reaction with the same efficiencies gets one.
\<close>

theorem chemically_activated_gets_no_efficiency_entry:
  "reaction_type chemically_activated_example = 8
   \<and> (case third_body_of chemically_activated_example of
         Inl e \<Rightarrow> False | Inr tb \<Rightarrow> efficiencies tb = [(''AR'', 0.7)] \<and> efficiency tb ''AR'' > 0)
   \<and> (case init_model example_state [chemically_activated_example] False False False of
         Inl e \<Rightarrow> False
       | Inr m \<Rightarrow> map parameter_type (model_parameter_info m) =
           [''High_pressure_A'', ''High_pressure_E'', ''Low_pressure_A'', ''Low_pressure_E''])
   \<and> (case init_model example_state [falloff_example] False False False of
         Inl e \<Rightarrow> False
       | Inr m \<Rightarrow> map parameter_type (model_parameter_info m) =
           [''High_pressure_A'', ''High_pressure_E'', ''Low_pressure_A'', ''Low_pressure_E'',
            ''Efficiency''])"
  by (simp add: example_defs catalog_defs lifecycle_defs)



lemma include_all_flags:
  "parameter_type p \<in> catalog_types \<Longrightarrow> include_this_parameter True True True p = kept p"
  by (auto simp add: include_this_parameter_def kept_def catalog_types_def)

lemma efficiency_entries_filter:
  "efficiency_entries n name r = Inr effs \<Longrightarrow>
     filter kept effs = [] \<and> (\<forall>p\<in>set effs. parameter_type p = ''Efficiency'')"
  by (auto simp add: efficiency_entries_def efficiency_entry_def kept_def filter_empty_conv
      split: if_splits sum.splits)

lemma rate_entries_filter:
  "rate_entries n name r = Inr info \<Longrightarrow>
     map key (filter kept info) =
       [(n, if HasFalloff r then ''High_pressure_A'' else ''A_factor'')]
     \<and> (\<forall>p\<in>set info. parameter_type p \<in> catalog_types)"
  by (auto simp add: rate_entries_def entry_def kept_def key_def catalog_types_def
      split: if_splits sum.splits)

lemma get_reaction_info_filter:
  assumes "get_reaction_info m n r = Inr info"
  shows "map key (filter kept info) = [(n, if HasFalloff r then ''High_pressure_A'' else ''A_factor'')]"
    and "\<forall>p\<in>set info. parameter_type p \<in> catalog_types"
proof -
  from assms obtain name ri effs where
    ri: "rate_entries n name r = Inr ri" and effs: "efficiency_entries n name r = Inr effs"
    and info: "info = ri @ effs"
    by (auto simp add: get_reaction_info_def split: option.splits sum.splits)
  from rate_entries_filter[OF ri] efficiency_entries_filter[OF effs] info
  show "map key (filter kept info) = [(n, if HasFalloff r then ''High_pressure_A'' else ''A_factor'')]"
    by simp
  from rate_entries_filter[OF ri] efficiency_entries_filter[OF effs] info
  show "\<forall>p\<in>set info. parameter_type p \<in> catalog_types"
    by (auto simp add: catalog_types_def)
qed

lemma reaction_infos_filter:
  "reaction_infos m n rs = Inr full \<Longrightarrow>
     map key (filter kept full) =
       map (\<lambda>(i, r). (i, if HasFalloff r then ''High_pressure_A'' else ''A_factor'')) (enumerate n rs)
     \<and> (\<forall>p\<in>set full. parameter_type p \<in> catalog_types)"
proof (induction rs arbitrary: n full)
  case Nil
  then show ?case by simp
next
  case (Cons r rs)
  from Cons.prems obtain info rest where
    info: "get_reaction_info m n r = Inr info" and rest: "reaction_infos m (Suc n) rs = Inr rest"
    and full: "full = info @ rest"
    by (auto split: sum.splits)
  from Cons.IH[OF rest] get_reaction_info_filter[OF info] full
  show ?case by auto
qed

text \<open>
  Claim C6. Whenever the builder returns the unfiltered catalog, it returns the catalog for
  the three flags all set as well; that one is no longer, is the unfiltered catalog
  restricted to the types A_factor and High_pressure_A, has exactly one entry per reaction
  in reaction order (High_pressure_A for a falloff reaction, A_factor otherwise), and has no
  Energy, Low-pressure, High_pressure_E or Efficiency entry.
\<close>

theorem all_flags_catalog:
  assumes "get_model_parameter_info m False False False = Inr full"
  shows "\<exists>cat. get_model_parameter_info m True True True = Inr cat
           \<and> length cat \<le> length full
           \<and> cat = filter (\<lambda>p. parameter_type p = ''A_factor'' \<or> parameter_type p = ''High_pressure_A'') full
           \<and> map (\<lambda>p. (reaction_number p, parameter_type p)) cat =
               map (\<lambda>(i, r). (i, if HasFalloff r then ''High_pressure_A'' else ''A_factor''))
                 (enumerate 0 (chemistry_model m))
           \<and> (\<forall>p\<in>set cat. parameter_type p \<notin> {''Energy'', ''Low_pressure_A'', ''Low_pressure_E'',
                                  ''High_pressure_E'', ''Efficiency''})"
proof -
  from assms have full: "reaction_infos m 0 (chemistry_model m) = Inr full"
    by (auto simp add: get_model_parameter_info_def model_parameter_info_full_def Solution_def
        include_this_parameter_def split: sum.splits)
  let ?cat = "filter (include_this_parameter True True True) full"
  have cat: "get_model_parameter_info m True True True = Inr ?cat"
    using full by (simp add: get_model_parameter_info_def model_parameter_info_full_def Solution_def)
  from reaction_infos_filter[OF full] have
    keys: "map key (filter kept full) =
       map (\<lambda>(i, r). (i, if HasFalloff r then ''High_pressure_A'' else ''A_factor''))
         (enumerate 0 (chemistry_model m))"
    and types: "\<forall>p\<in>set full. parameter_type p \<in> catalog_types"
    by auto
  from types have eq: "?cat = filter kept full"
    by (intro filter_cong) (auto simp add: include_all_flags)
  have "length ?cat \<le> length full" by simp
  moreover have "?cat = filter (\<lambda>p. parameter_type p = ''A_factor'' \<or> parameter_type p = ''High_pressure_A'') full"
    using eq by (simp add: kept_def[abs_def])
  moreover have "map (\<lambda>p. (reaction_number p, parameter_type p)) ?cat =
               map (\<lambda>(i, r). (i, if HasFalloff r then ''High_pressure_A'' else ''A_factor''))
                 (enumerate 0 (chemistry_model m))"
    using keys eq by (simp add: key_def[abs_def])
  moreover have "\<forall>p\<in>set ?cat. parameter_type p \<notin> {''Energy'', ''Low_pressure_A'', ''Low_pressure_E'',
                                  ''High_pressure_E'', ''Efficiency''}"
    by (auto simp add: eq kept_def)
  ultimately show ?thesis using cat by blast
qed

theorem all_flags_catalog_witness:
  "\<exists>full cat.
     get_model_parameter_info (initialize_chemistry example_blank) False False False = Inr full
     \<and> get_model_parameter_info (initialize_chemistry example_blank) True True True = Inr cat
     \<and> length full = 14 \<and> length cat \<le> length full
     \<and> map (\<lambda>p. (reaction_number p, parameter_type p)) cat =
         [(0, ''A_factor''), (1, ''A_factor''), (2, ''High_pressure_A''), (3, ''High_pressure_A'')]"
proof -
  obtain full where
    full: "get_model_parameter_info (initialize_chemistry example_blank) False False False = Inr full"
    and len: "length full = 14"
    by (simp add: example_defs example_model_defs catalog_defs lifecycle_defs)
  have mech: "chemistry_model (initialize_chemistry example_blank) = example_mechanism"
    by (simp add: example_blank_def initialize_chemistry_def)
  from all_flags_catalog[OF full] obtain cat where
    "get_model_parameter_info (initialize_chemistry example_blank) True True True = Inr cat"
    "length cat \<le> length full"
    "map (\<lambda>p. (reaction_number p, parameter_type p)) cat =
       map (\<lambda>(i, r). (i, if HasFalloff r then ''High_pressure_A'' else ''A_factor''))
         (enumerate 0 (chemistry_model (initialize_chemistry example_blank)))"
    by blast
  then show ?thesis using full len
    by (simp add: mech example_defs HasFalloff_def)
qed

section \<open>Properties of the parameter accessor\<close>

lemma perturb_high_A_low_unchanged:
  assumes "perturb_reaction ''High_pressure_A'' v nf r = Inr r'"
  shows "low_rate r' = low_rate r"
  using assms
  by (cases r) (auto simp add: perturb_reaction_def perturb_high_def perturb_low_def py_div_def
      Arrhenius_def split: if_splits)

text \<open>
  Claim C1. With \<^verbatim>\<open>no_falloff\<close> set, writing a High-pressure-A should scale the
  Low-pressure-A by new/old. The divisor of \<^verbatim>\<open>perturbation = new_value/A\<close> is the
  value just assigned, so the ratio is 1 whatever the old value was
  (\<open>perturb_high_A_low_unchanged\<close>). Evaluated on the model built with the flags set from
  the falloff reaction with high-pressure A = 2 and low-pressure A = 3: after
  \<^verbatim>\<open>perturb_parameter(0, 4)\<close> the high-pressure A is 4 and the low-pressure A is
  still 3, not 6.
\<close>

theorem high_pressure_A_ratio_is_one:
  "(case init_model example_state [falloff_example] True True True of
      Inl e \<Rightarrow> False
    | Inr m0 \<Rightarrow>
        no_falloff m0
        \<and> map parameter_type (model_parameter_info m0) = [''High_pressure_A'']
        \<and> map_option reactions (gas (initialize_chemistry m0)) =
            Some [FalloffReaction ''H+O2(+M)<=>HO2(+M)'' (Arrhenius 2 0 1) (Arrhenius 3 (-1) 4)
                   \<lparr>efficiencies = [(''AR'', 0.7)], default_efficiency = 1\<rparr>]
        \<and> (case perturb_parameter 0 4 (initialize_chemistry m0) of
              Inl e \<Rightarrow> False
            | Inr m' \<Rightarrow> map_option reactions (gas m') =
                Some [FalloffReaction ''H+O2(+M)<=>HO2(+M)'' (Arrhenius 4 0 1) (Arrhenius 3 (-1) 4)
                       \<lparr>efficiencies = [(''AR'', 0.7)], default_efficiency = 1\<rparr>]))"
  by (simp add: example_defs catalog_defs lifecycle_defs accessor_defs)

lemma perturb_reaction_low_E:
  assumes "high_rate r = Inr hi" "low_rate r = Inr lo"
  shows "\<exists>r'. perturb_reaction ''Low_pressure_E'' v nf r = Inr r'
          \<and> low_rate r' = Inr (lo\<lparr>activation_energy := v\<rparr>) \<and> high_rate r' = Inr hi"
  using assms
  by (cases r) (simp_all add: perturb_reaction_def perturb_high_def perturb_low_def Arrhenius_def)

lemma perturb_reaction_high_E:
  assumes "high_rate r = Inr hi" "low_rate r = Inr lo"
  shows "\<exists>r'. perturb_reaction ''High_pressure_E'' v False r = Inr r'
          \<and> high_rate r' = Inr (hi\<lparr>activation_energy := v\<rparr>) \<and> low_rate r' = Inr lo"
  using assms
  by (cases r) (simp_all add: perturb_reaction_def perturb_high_def perturb_low_def Arrhenius_def)

lemma perturb_parameter_via_reaction:
  assumes "py_index (model_parameter_info m) pid = Inr p"
    and "gas m = Some g" and "reaction_at g (reaction_number p) = Inr r"
    and "perturb_reaction (parameter_type p) v (no_falloff m) r = Inr r'"
  shows "perturb_parameter pid v m =
           Inr (m\<lparr>gas := Some (g\<lparr>reactions := (reactions g)[reaction_number p := r']\<rparr>)\<rparr>)"
    and "reaction_at (g\<lparr>reactions := (reactions g)[reaction_number p := r']\<rparr>) (reaction_number p) = Inr r'"
proof -
  from assms(3) have lt: "reaction_number p < length (reactions g)"
    by (simp add: reaction_at_def split: if_splits)
  show "perturb_parameter pid v m =
           Inr (m\<lparr>gas := Some (g\<lparr>reactions := (reactions g)[reaction_number p := r']\<rparr>)\<rparr>)"
    using assms lt by (simp add: perturb_parameter_def modify_reaction_def)
  show "reaction_at (g\<lparr>reactions := (reactions g)[reaction_number p := r']\<rparr>) (reaction_number p) = Inr r'"
    using lt by (simp add: reaction_at_def)
qed

text \<open>
  On a falloff reaction, writing a Low_pressure_E, or a High_pressure_E while
  \<^verbatim>\<open>no_falloff\<close> is not set, sets that branch's activation energy and leaves the
  rest of that branch and the whole other branch as they were.
\<close>

lemma activation_energy_unflagged:
  assumes idx: "py_index (model_parameter_info m) pid = Inr p"
    and ty: "parameter_type p = ''Low_pressure_E''
         \<or> (parameter_type p = ''High_pressure_E'' \<and> \<not> no_falloff m)"
    and g: "gas m = Some g" and r: "reaction_at g (reaction_number p) = Inr r"
    and hi: "high_rate r = Inr hi" and lo: "low_rate r = Inr lo"
  shows "\<exists>m' g' r'. perturb_parameter pid v m = Inr m' \<and> gas m' = Some g'
          \<and> reactions g' = (reactions g)[reaction_number p := r']
          \<and> reaction_at g' (reaction_number p) = Inr r'
          \<and> (if parameter_type p = ''High_pressure_E''
              then high_rate r' = Inr (hi\<lparr>activation_energy := v\<rparr>) \<and> low_rate r' = Inr lo
              else low_rate r' = Inr (lo\<lparr>activation_energy := v\<rparr>) \<and> high_rate r' = Inr hi)"
proof -
  have "\<exists>r'. perturb_reaction (parameter_type p) v (no_falloff m) r = Inr r'
          \<and> (if parameter_type p = ''High_pressure_E''
              then high_rate r' = Inr (hi\<lparr>activation_energy := v\<rparr>) \<and> low_rate r' = Inr lo
              else low_rate r' = Inr (lo\<lparr>activation_energy := v\<rparr>) \<and> high_rate r' = Inr hi)"
  proof (cases "parameter_type p = ''Low_pressure_E''")
    case True
    with perturb_reaction_low_E[OF hi lo, of v "no_falloff m"] show ?thesis by simp
  next
    case False
    with ty have "parameter_type p = ''High_pressure_E''" "no_falloff m = False" by simp_all
    with perturb_reaction_high_E[OF hi lo, of v] show ?thesis by simp
  qed
  then obtain r' where
    r': "perturb_reaction (parameter_type p) v (no_falloff m) r = Inr r'"
    and br: "(if parameter_type p = ''High_pressure_E''
              then high_rate r' = Inr (hi\<lparr>activation_energy := v\<rparr>) \<and> low_rate r' = Inr lo
              else low_rate r' = Inr (lo\<lparr>activation_energy := v\<rparr>) \<and> high_rate r' = Inr hi)"
    by blast
  let ?g' = "g\<lparr>reactions := (reactions g)[reaction_number p := r']\<rparr>"
  from perturb_parameter_via_reaction[OF idx g r r']
  have "perturb_parameter pid v m = Inr (m\<lparr>gas := Some ?g'\<rparr>)"
    and "reaction_at ?g' (reaction_number p) = Inr r'" by simp_all
  moreover have "gas (m\<lparr>gas := Some ?g'\<rparr>) = Some ?g'" by simp
  moreover have "reactions ?g' = (reactions g)[reaction_number p := r']" by simp
  ultimately show ?thesis using br by blast
qed

lemma perturb_parameter_frame:
  "perturb_parameter pid v m = Inr m' \<Longrightarrow> \<exists>g'. m' = m\<lparr>gas := Some g'\<rparr>"
  by (auto simp add: perturb_parameter_def split: sum.splits option.splits)

lemma perturb_all_frame: "\<exists>go. perturb_all calls m = m\<lparr>gas := go\<rparr>"
proof (induction calls arbitrary: m)
  case Nil
  have "m = m\<lparr>gas := gas m\<rparr>" by simp
  then show ?case by (metis perturb_all.simps(1))
next
  case (Cons c calls)
  obtain pid v where c: "c = (pid, v)" by (cases c)
  show ?case
  proof (cases "perturb_parameter pid v m")
    case (Inl e)
    then show ?thesis using Cons.IH[of m] c by simp
  next
    case (Inr m')
    from perturb_parameter_frame[OF Inr] obtain g' where m': "m' = m\<lparr>gas := Some g'\<rparr>" by blast
    from Cons.IH[of m'] obtain go where "perturb_all calls m' = m'\<lparr>gas := go\<rparr>" by blast
    then show ?thesis using Inr c m' by auto
  qed
qed

lemma reset_model_gas_update: "reset_model (m\<lparr>gas := go\<rparr>) = reset_model m"
  by (simp add: reset_model_def blank_chemistry_def)

text \<open>
  Claim C9. \<^verbatim>\<open>reset_model\<close> is \<^verbatim>\<open>blank_chemistry\<close> followed by
  \<^verbatim>\<open>initialize_chemistry\<close>. For a model \<open>m0\<close> the constructor returned, whose
  mechanism is initialised and then perturbed by any sequence of calls, the mechanism after
  \<^verbatim>\<open>reset_model\<close> is the freshly initialised one, and \<^verbatim>\<open>get_parameter\<close>
  gives for every id what it gives on the freshly initialised model.
\<close>

theorem reset_discards_perturbations:
  assumes "init_model st mech no_eff no_en no_fall = Inr m0"
  shows "reset_model (perturb_all calls (initialize_chemistry m0)) =
           initialize_chemistry (blank_chemistry (perturb_all calls (initialize_chemistry m0)))
       \<and> gas (reset_model (perturb_all calls (initialize_chemistry m0))) = gas (initialize_chemistry m0)
       \<and> get_parameter (reset_model (perturb_all calls (initialize_chemistry m0))) parameter_id =
           get_parameter (initialize_chemistry m0) parameter_id"
proof -
  from assms have blank: "gas m0 = None"
    by (auto simp add: init_model_def prepare_chemistry_def blank_chemistry_def Let_def split: sum.splits)
  obtain go where go: "perturb_all calls (initialize_chemistry m0) = (initialize_chemistry m0)\<lparr>gas := go\<rparr>"
    using perturb_all_frame by blast
  have rs: "reset_model (perturb_all calls (initialize_chemistry m0)) = reset_model (initialize_chemistry m0)"
    by (simp only: go reset_model_gas_update)
  have "gas (reset_model (initialize_chemistry m0)) = gas (initialize_chemistry m0)"
    using blank by (simp add: reset_model_def blank_chemistry_def initialize_chemistry_def)
  then have g: "gas (reset_model (perturb_all calls (initialize_chemistry m0))) = gas (initialize_chemistry m0)"
    by (simp only: rs)
  have "model_parameter_info (reset_model (initialize_chemistry m0)) =
        model_parameter_info (initialize_chemistry m0)"
    by (simp add: reset_model_def blank_chemistry_def initialize_chemistry_def)
  then have mpi: "model_parameter_info (reset_model (perturb_all calls (initialize_chemistry m0))) =
        model_parameter_info (initialize_chemistry m0)"
    by (simp only: rs)
  have "get_parameter (reset_model (perturb_all calls (initialize_chemistry m0))) parameter_id =
           get_parameter (initialize_chemistry m0) parameter_id"
    unfolding get_parameter_def by (simp only: g mpi)
  moreover have "reset_model (perturb_all calls (initialize_chemistry m0)) =
           initialize_chemistry (blank_chemistry (perturb_all calls (initialize_chemistry m0)))"
    by (simp only: reset_model_def)
  ultimately show ?thesis using g by blast
qed

theorem reset_discards_perturbations_witness:
  "get_parameter (perturb_all [(0, 4), (1, 9)] (initialize_chemistry falloff_model)) 0 = Inr 4
   \<and> get_parameter (reset_model (perturb_all [(0, 4), (1, 9)] (initialize_chemistry falloff_model))) 0
       = Inr 2"
proof -
  have before: "get_parameter (perturb_all [(0, 4), (1, 9)] (initialize_chemistry falloff_model)) 0 = Inr 4"
    by (simp add: example_model_defs example_defs initialize_chemistry_def
        Solution_def entry_def accessor_defs)
  have fresh: "get_parameter (initialize_chemistry falloff_model) 0 = Inr 2"
    by (simp add: example_model_defs example_defs initialize_chemistry_def
        Solution_def entry_def accessor_defs)
  from reset_discards_perturbations[OF falloff_model_constructed, of "[(0, 4), (1, 9)]" 0]
  have "get_parameter (reset_model (perturb_all [(0, 4), (1, 9)] (initialize_chemistry falloff_model))) 0
       = get_parameter (initialize_chemistry falloff_model) 0"
    by blast
  then show ?thesis using before fresh by (simp only: simp_thms)
qed

lemma py_index_mem: "py_index xs i = Inr x \<Longrightarrow> x \<in> set xs"
  by (auto simp add: py_index_def split: if_splits)

lemma init_model_catalog:
  assumes "init_model st mech no_eff no_en no_fall = Inr m0"
  shows "no_falloff m0 = no_fall"
    and "\<forall>p\<in>set (model_parameter_info m0). include_this_parameter no_eff no_en no_fall p"
  using assms
  by (auto simp add: init_model_def prepare_chemistry_def get_model_parameter_info_def
      blank_chemistry_def initialize_chemistry_def Let_def split: sum.splits)

lemma perturbed_constructed_model:
  assumes "init_model st mech no_eff no_en no_fall = Inr m0"
  shows "no_falloff (perturb_all calls (initialize_chemistry m0)) = no_fall"
    and "\<forall>p\<in>set (model_parameter_info (perturb_all calls (initialize_chemistry m0))).
           include_this_parameter no_eff no_en no_fall p"
proof -
  obtain go where go: "perturb_all calls (initialize_chemistry m0) = (initialize_chemistry m0)\<lparr>gas := go\<rparr>"
    using perturb_all_frame by blast
  have "no_falloff ((initialize_chemistry m0)\<lparr>gas := go\<rparr>) = no_falloff m0"
    "model_parameter_info ((initialize_chemistry m0)\<lparr>gas := go\<rparr>) = model_parameter_info m0"
    by (simp_all add: initialize_chemistry_def)
  with init_model_catalog[OF assms]
  show "no_falloff (perturb_all calls (initialize_chemistry m0)) = no_fall"
    and "\<forall>p\<in>set (model_parameter_info (perturb_all calls (initialize_chemistry m0))).
           include_this_parameter no_eff no_en no_fall p"
    by (simp_all only: go)
qed

text \<open>
  Claim C8. The constructor writes the flag \<^verbatim>\<open>no_falloff\<close> and the catalog together,
  for any setting of the three flags, and no method assigns either afterwards. On a model
  the constructor returned, with its mechanism initialised and after any sequence of
  \<^verbatim>\<open>perturb_parameter\<close> calls, a call on a catalog entry of type High_pressure_E or
  Low_pressure_E of a falloff reaction returns, sets that branch's activation energy to the
  new value, and leaves the pre-exponential factor and temperature exponent of that branch
  and all three parameters of the other branch as they were. (A model built with the flag
  set has no entry of either type: \<open>perturbed_constructed_model\<close>.)
\<close>

theorem activation_energy_branch_only:
  assumes built: "init_model st mech no_eff no_en no_fall = Inr m0"
    and m: "m = perturb_all calls (initialize_chemistry m0)"
    and idx: "py_index (model_parameter_info m) pid = Inr p"
    and ty: "parameter_type p = ''High_pressure_E'' \<or> parameter_type p = ''Low_pressure_E''"
    and g: "gas m = Some g" and r: "reaction_at g (reaction_number p) = Inr r"
    and hi: "high_rate r = Inr hi" and lo: "low_rate r = Inr lo"
  shows "\<exists>m' g' r'. perturb_parameter pid v m = Inr m' \<and> gas m' = Some g'
          \<and> reactions g' = (reactions g)[reaction_number p := r']
          \<and> reaction_at g' (reaction_number p) = Inr r'
          \<and> (if parameter_type p = ''High_pressure_E''
              then high_rate r' = Inr (hi\<lparr>activation_energy := v\<rparr>) \<and> low_rate r' = Inr lo
              else low_rate r' = Inr (lo\<lparr>activation_energy := v\<rparr>) \<and> high_rate r' = Inr hi)"
proof -
  from perturbed_constructed_model[OF built, of calls] m
  have nf: "no_falloff m = no_fall"
    and inc: "\<forall>p\<in>set (model_parameter_info m). include_this_parameter no_eff no_en no_fall p"
    by simp_all
  from py_index_mem[OF idx] inc have "include_this_parameter no_eff no_en no_fall p" by blast
  with ty nf have "\<not> no_falloff m"
    by (auto simp add: include_this_parameter_def)
  with ty have ty': "parameter_type p = ''Low_pressure_E''
         \<or> (parameter_type p = ''High_pressure_E'' \<and> \<not> no_falloff m)" by blast
  from activation_energy_unflagged[OF idx ty' g r hi lo] show ?thesis .
qed

theorem activation_energy_branch_only_witness:
  "init_model example_state [falloff_example] False False False = Inr falloff_model
   \<and> py_index (model_parameter_info (perturb_all [(0, 4)] (initialize_chemistry falloff_model))) 1 =
       Inr (entry 0 ''High_pressure_E'' ''H+O2(+M)<=>HO2(+M):HpE'')
   \<and> gas_reactions (Inr (perturb_all [(0, 4)] (initialize_chemistry falloff_model))) =
       Some [FalloffReaction ''H+O2(+M)<=>HO2(+M)'' (Arrhenius 4 0 1) (Arrhenius 3 (-1) 4)
              \<lparr>efficiencies = [(''AR'', 0.7)], default_efficiency = 1\<rparr>]
   \<and> gas_reactions (perturb_parameter 1 9 (perturb_all [(0, 4)] (initialize_chemistry falloff_model))) =
       Some [FalloffReaction ''H+O2(+M)<=>HO2(+M)'' (Arrhenius 4 0 9) (Arrhenius 3 (-1) 4)
              \<lparr>efficiencies = [(''AR'', 0.7)], default_efficiency = 1\<rparr>]
   \<and> gas_reactions (perturb_parameter 3 9 (perturb_all [(0, 4)] (initialize_chemistry falloff_model))) =
       Some [FalloffReaction ''H+O2(+M)<=>HO2(+M)'' (Arrhenius 4 0 1) (Arrhenius 3 (-1) 9)
              \<lparr>efficiencies = [(''AR'', 0.7)], default_efficiency = 1\<rparr>]"
proof -
  let ?m = "perturb_all [(0, 4)] (initialize_chemistry falloff_model)"
  let ?p = "entry 0 ''High_pressure_E'' ''H+O2(+M)<=>HO2(+M):HpE''"
  let ?r = "FalloffReaction ''H+O2(+M)<=>HO2(+M)'' (Arrhenius 4 0 1) (Arrhenius 3 (-1) 4)
              \<lparr>efficiencies = [(''AR'', 0.7)], default_efficiency = 1\<rparr>"
  let ?g = "\<lparr>reactions = [?r], TPX = Some (300, 101325, ''CH4:1, O2:2, N2:7.52'')\<rparr>"
  have idx: "py_index (model_parameter_info ?m) 1 = Inr ?p"
    by (simp add: example_model_defs example_defs initialize_chemistry_def Solution_def entry_def
        accessor_defs)
  have ty: "parameter_type ?p = ''High_pressure_E'' \<or> parameter_type ?p = ''Low_pressure_E''"
    by (simp add: entry_def)
  have g: "gas ?m = Some ?g"
    by (simp add: example_model_defs example_defs initialize_chemistry_def Solution_def entry_def
        accessor_defs)
  have r: "reaction_at ?g (reaction_number ?p) = Inr ?r"
    by (simp add: reaction_at_def entry_def)
  have hi: "high_rate ?r = Inr (Arrhenius 4 0 1)" and lo: "low_rate ?r = Inr (Arrhenius 3 (-1) 4)"
    by simp_all
  from activation_energy_branch_only[OF falloff_model_constructed refl idx ty g r hi lo, of 9]
  obtain m' g' r' where
    m': "perturb_parameter 1 9 ?m = Inr m'" and g': "gas m' = Some g'"
    and rs: "reactions g' = (reactions ?g)[reaction_number ?p := r']"
    and br: "high_rate r' = Inr ((Arrhenius 4 0 1)\<lparr>activation_energy := 9\<rparr>)"
            "low_rate r' = Inr (Arrhenius 3 (-1) 4)"
    by (auto simp add: entry_def)
  have before: "gas_reactions (Inr ?m) = Some [?r]"
    by (simp add: gas_reactions_def example_model_defs example_defs initialize_chemistry_def
        Solution_def entry_def accessor_defs)
  have high: "gas_reactions (perturb_parameter 1 9 ?m) =
       Some [FalloffReaction ''H+O2(+M)<=>HO2(+M)'' (Arrhenius 4 0 9) (Arrhenius 3 (-1) 4)
              \<lparr>efficiencies = [(''AR'', 0.7)], default_efficiency = 1\<rparr>]"
    by (simp add: gas_reactions_def example_model_defs example_defs initialize_chemistry_def
        Solution_def entry_def accessor_defs)
  have low: "gas_reactions (perturb_parameter 3 9 ?m) =
       Some [FalloffReaction ''H+O2(+M)<=>HO2(+M)'' (Arrhenius 4 0 1) (Arrhenius 3 (-1) 9)
              \<lparr>efficiencies = [(''AR'', 0.7)], default_efficiency = 1\<rparr>]"
    by (simp add: gas_reactions_def example_model_defs example_defs initialize_chemistry_def
        Solution_def entry_def accessor_defs)
  from falloff_model_constructed idx before high low m' show ?thesis by simp
qed

section \<open>Reading a parameter back\<close>

text \<open>
  A value written by \<^verbatim>\<open>perturb_parameter\<close> is the value \<^verbatim>\<open>get_parameter\<close>
  reads back, for any catalog entry whose type can be read at all.
\<close>

lemma perturb_reaction_then_read_any:
  assumes "read_reaction ty r0 = Inr b" and "perturb_reaction ty v nf r = Inr r'"
  shows "read_reaction ty r' = Inr v"
proof (cases "str_in ''pressure'' ty")
  case False
  from assms(1) False have ae: "str_in ''A'' ty \<or> str_in ''E'' ty"
    by (auto simp add: read_reaction_def pick_value_def Let_def split: sum.splits if_splits)
  with assms(2) False show ?thesis
    by (cases r)
       (auto simp add: read_reaction_def perturb_reaction_def perturb_plain_def pick_value_def
          Arrhenius_def Let_def split: if_splits)
next
  case True
  from assms(2) True obtain hi lo where hl: "high_rate r = Inr hi" "low_rate r = Inr lo"
    by (auto simp add: perturb_reaction_def split: sum.splits)
  from assms(1) True have sel: "str_in ''High'' ty \<or> str_in ''Low'' ty"
    and ae: "str_in ''A'' ty \<or> str_in ''E'' ty"
    by (auto simp add: read_reaction_def pick_value_def Let_def split: sum.splits if_splits)
  from hl obtain eq tb where r: "r = FalloffReaction eq hi lo tb \<or> r = ChemicallyActivatedReaction eq hi lo tb"
    by (cases r) auto
  show ?thesis
  proof (cases "str_in ''High'' ty")
    case H: True
    show ?thesis
    proof (cases "str_in ''Low'' ty")
      case L: True
      with H True r assms(2) ae show ?thesis
        by (auto simp add: read_reaction_def perturb_reaction_def perturb_high_def perturb_low_def
            pick_value_def py_div_def Arrhenius_def Let_def split: if_splits)
    next
      case L: False
      with H True r assms(2) ae show ?thesis
        by (auto simp add: read_reaction_def perturb_reaction_def perturb_high_def perturb_low_def
            pick_value_def py_div_def Arrhenius_def Let_def split: if_splits)
    qed
  next
    case H: False
    with sel have L: "str_in ''Low'' ty" by simp
    with H True r assms(2) ae show ?thesis
      by (auto simp add: read_reaction_def perturb_reaction_def perturb_high_def perturb_low_def
          pick_value_def py_div_def Arrhenius_def Let_def split: if_splits)
  qed
qed

lemma perturb_then_get_any:
  assumes "py_index (model_parameter_info m) pid = Inr p"
    and "read_reaction (parameter_type p) r0 = Inr b"
    and "perturb_parameter pid v m = Inr m'"
  shows "get_parameter m' pid = Inr v"
proof -
  from assms(1,3) obtain g r r' where
    g: "gas m = Some g" and r: "reaction_at g (reaction_number p) = Inr r"
    and r': "perturb_reaction (parameter_type p) v (no_falloff m) r = Inr r'"
    by (auto simp add: perturb_parameter_def split: sum.splits option.splits)
  from perturb_parameter_via_reaction[OF assms(1) g r r'] assms(3)
  have m': "m' = m\<lparr>gas := Some (g\<lparr>reactions := (reactions g)[reaction_number p := r']\<rparr>)\<rparr>"
    and at: "reaction_at (g\<lparr>reactions := (reactions g)[reaction_number p := r']\<rparr>) (reaction_number p) = Inr r'"
    by simp_all
  from perturb_reaction_then_read_any[OF assms(2) r'] assms(1) at show ?thesis
    by (simp add: get_parameter_def m')
qed

lemma get_parameter_readable:
  assumes "get_parameter m pid = Inr b"
  shows "\<exists>p r0. py_index (model_parameter_info m) pid = Inr p
            \<and> read_reaction (parameter_type p) r0 = Inr b"
  using assms by (auto simp add: get_parameter_def split: sum.splits option.splits)


section \<open>Properties of the finite-difference routine\<close>

lemma toy_model_constructed:
  "init_model example_state [elementary_example] True True True = Inr toy_model"
  by (simp add: toy_model_def example_defs catalog_defs lifecycle_defs)

lemmas toy_defs = toy_model_def toy_methods_def toy_evaluate_def base_save_restart_def
  base_load_restart_def

lemmas sens_defs = sensitivity_def sens_prologue_def sens_step_def emit_def

lemmas toy_run_defs = toy_defs sens_defs example_defs accessor_defs initialize_chemistry_def
  Solution_def entry_def

lemma toy_run_half:
  "fst (sensitivity toy_methods (1 / 2) [0] toy_model) = Inr (50, [5 / 6])"
  by (simp add: toy_run_defs)

lemma toy_run_one:
  "fst (sensitivity toy_methods 1 [0] toy_model) = Inl CanteraError"
  "sens_flag (snd (sensitivity toy_methods 1 [0] toy_model))"
  by (simp_all add: toy_run_defs)

lemma toy_keeps_flag: "keeps_flag toy_methods"
  by (simp add: keeps_flag_def toy_methods_def toy_evaluate_def base_save_restart_def
      base_load_restart_def initialize_chemistry_def Let_def split: option.split sum.split)


lemma sens_step_spec:
  assumes "perturbation \<noteq> - 1"
  shows "sens_step ms perturbation val (1 + perturbation) (1 / (1 + perturbation)) param_id m =
         spec_parameter ms perturbation val param_id m"
proof -
  from assms have nz: "1 + perturbation \<noteq> 0" by simp
  show ?thesis
    unfolding sens_step_def spec_parameter_def spec_plus_def spec_minus_def central_difference_def
    using nz
    by (auto simp add: py_div_def mult.commute split: sum.splits prod.splits option.splits)
qed

lemma sens_loop_spec:
  assumes "perturbation \<noteq> - 1"
  shows "sens_loop ms perturbation val (1 + perturbation) (1 / (1 + perturbation)) ids acc m =
         (case spec_vector ms perturbation val ids m of
            (Inl e, m') \<Rightarrow> (Inl e, m')
          | (Inr coefficients, m') \<Rightarrow> (Inr (acc @ coefficients), m'))"
proof (induction ids arbitrary: acc m)
  case Nil
  show ?case by simp
next
  case (Cons param_id ids)
  show ?case
    by (auto simp add: sens_step_spec[OF assms] Cons.IH split: sum.splits prod.splits)
qed


text \<open>
  Claim C2. For a perturbation fraction other than -1 the routine of the source is the
  routine the specification describes, on every model and every list of ids, for any
  subclass methods, in its result and in the model it leaves: per id, in the caller's
  order, the current value is read, perturbed to \<open>value * (1 + fraction)\<close> and evaluated
  (plus), perturbed to \<open>value * (1 / (1 + fraction))\<close>, the restart reloaded, evaluated
  (minus), the value read is written back, and \<open>(plus - minus) / (2 * fraction * baseline)\<close>
  is recorded; the vector is in the order of the ids and comes with the baseline value
  evaluated once before any perturbation. (At the fraction -1 the source raises
  \<^verbatim>\<open>ZeroDivisionError\<close> before the loop, when it computes \<^verbatim>\<open>1/pos_mult\<close>.)
\<close>

theorem sensitivity_refines_spec:
  assumes "perturbation \<noteq> - 1"
  shows "sensitivity ms perturbation parameter_list m =
         spec_sensitivity ms perturbation parameter_list m"
proof -
  from assms have nz: "1 + perturbation \<noteq> 0" by simp
  show ?thesis
    unfolding sensitivity_def sens_prologue_def spec_sensitivity_def
    using nz
    by (auto simp add: py_div_def sens_loop_spec[OF assms] Let_def split: sum.splits prod.splits option.splits)
qed

theorem sensitivity_refines_spec_witness:
  "(1 / 2 :: real) \<noteq> - 1
   \<and> fst (sensitivity toy_methods (1 / 2) [0] toy_model) = Inr (50, [5 / 6])
   \<and> fst (spec_sensitivity toy_methods (1 / 2) [0] toy_model) = Inr (50, [5 / 6])"
proof -
  have h: "(1 / 2 :: real) \<noteq> - 1" by simp
  from sensitivity_refines_spec[OF h, of toy_methods "[0]" toy_model] toy_run_half h
  show ?thesis by simp
qed


lemma perturb_parameter_eq:
  "perturb_parameter pid v m =
     (case perturb_gas pid v m of Inl e \<Rightarrow> Inl e | Inr g' \<Rightarrow> Inr (m\<lparr>gas := Some g'\<rparr>))"
proof (cases "perturb_parameter pid v m")
  case (Inl e)
  then show ?thesis by (simp add: perturb_gas_def)
next
  case (Inr m')
  from perturb_parameter_frame[OF Inr] obtain g' where "m' = m\<lparr>gas := Some g'\<rparr>" by blast
  with Inr show ?thesis by (simp add: perturb_gas_def)
qed

lemma keeps_flagD:
  assumes "keeps_flag ms"
  shows "evaluate_of ms s = (x, s') \<Longrightarrow> sens_flag s' = sens_flag s"
    and "save_restart_of ms s = (y, s') \<Longrightarrow> sens_flag s' = sens_flag s"
    and "load_restart_of ms s = (y, s') \<Longrightarrow> sens_flag s' = sens_flag s"
  using assms unfolding keeps_flag_def by (metis snd_conv)+

lemma perturb_parameter_flag:
  "perturb_parameter pid v m = Inr m' \<Longrightarrow> sens_flag m' = sens_flag m"
  using perturb_parameter_frame[of pid v m m'] by auto

lemma sens_step_flag:
  assumes "keeps_flag ms"
  shows "sens_flag (snd (sens_step ms p val pos neg param_id m)) = sens_flag m"
proof -
  from assms have fr: "\<And>s. sens_flag (snd (evaluate_of ms s)) = sens_flag s"
    "\<And>s. sens_flag (snd (load_restart_of ms s)) = sens_flag s"
    by (simp_all add: keeps_flag_def)
  show ?thesis
    unfolding sens_step_def perturb_parameter_eq
    by (simp add: fr emit_def case_prod_beta split: sum.split option.split)
qed

lemma sens_loop_flag:
  assumes "keeps_flag ms"
  shows "sens_flag (snd (sens_loop ms p val pos neg ids acc m)) = sens_flag m"
proof (induction ids arbitrary: acc m)
  case Nil
  show ?case by simp
next
  case (Cons param_id ids)
  show ?case
  proof (cases "sens_step ms p val pos neg param_id m")
    case (Pair res m')
    with sens_step_flag[OF assms, of p val pos neg param_id m]
    have fl: "sens_flag m' = sens_flag m" by simp
    show ?thesis using Pair fl Cons.IH by (cases res) simp_all
  qed
qed

lemma sens_step_checked:
  assumes "keeps_flag ms" and "sens_flag m"
  shows "sens_step (with_flag_check ms) p val pos neg param_id m = sens_step ms p val pos neg param_id m"
proof -
  from assms have fr: "\<And>s. sens_flag (snd (evaluate_of ms s)) = sens_flag s"
    "\<And>s. sens_flag (snd (load_restart_of ms s)) = sens_flag s"
    by (simp_all add: keeps_flag_def)
  have ck: "\<And>s. sens_flag s \<Longrightarrow> evaluate_of (with_flag_check ms) s = evaluate_of ms s"
    "\<And>s. sens_flag s \<Longrightarrow> load_restart_of (with_flag_check ms) s = load_restart_of ms s"
    by (simp_all add: with_flag_check_def)
  show ?thesis
    unfolding sens_step_def perturb_parameter_eq using assms(2)
    by (simp add: fr ck case_prod_beta split: sum.split option.split)
qed

lemma sens_loop_checked:
  assumes "keeps_flag ms"
  shows "sens_flag m \<Longrightarrow>
     sens_loop (with_flag_check ms) p val pos neg ids acc m = sens_loop ms p val pos neg ids acc m"
proof (induction ids arbitrary: acc m)
  case Nil
  show ?case by simp
next
  case (Cons param_id ids)
  show ?case
  proof (cases "sens_step ms p val pos neg param_id m")
    case (Pair res m')
    with sens_step_flag[OF assms, of p val pos neg param_id m] Cons.prems
    have fl: "sens_flag m'" by simp
    show ?thesis
      using Pair Cons.IH[OF fl] sens_step_checked[OF assms Cons.prems]
      by (cases res) simp_all
  qed
qed

lemma sens_prologue_flag:
  assumes "keeps_flag ms"
  shows "sens_flag (snd (sens_prologue ms p m)) = sens_flag m"
proof -
  from assms have fr: "\<And>s. sens_flag (snd (evaluate_of ms s)) = sens_flag s"
    "\<And>s. sens_flag (snd (save_restart_of ms s)) = sens_flag s"
    by (simp_all add: keeps_flag_def)
  show ?thesis
    unfolding sens_prologue_def
    by (simp add: fr emit_def Let_def case_prod_beta split: sum.split option.split)
qed


text \<open>
  Claim C3, as amended. For subclass methods that leave the flag alone and a model whose
  flag is not set on entry: when \<^verbatim>\<open>sensitivity\<close> returns, the flag is not set;
  while the loop runs the flag is set (it is set after the loop however the loop ends, and
  guarding every \<^verbatim>\<open>evaluate\<close> and \<^verbatim>\<open>load_restart\<close> call of the loop with a check
  of the flag changes nothing); when \<^verbatim>\<open>sensitivity\<close> raises, the flag is set exactly
  when the statements before the loop had completed, that is, when the exception came from
  inside the loop.
\<close>

theorem sens_flag_protocol:
  fixes ms :: "'a methods"
  assumes "keeps_flag ms" and "\<not> sens_flag m"
  shows "(\<forall>r m'. sensitivity ms p ids m = (Inr r, m') \<longrightarrow> \<not> sens_flag m')
       \<and> (\<forall>val pos neg acc (m1 :: 'a model_scheme). sens_flag m1 \<longrightarrow>
             sens_flag (snd (sens_loop ms p val pos neg ids acc m1))
             \<and> sens_loop (with_flag_check ms) p val pos neg ids acc m1 =
                 sens_loop ms p val pos neg ids acc m1)
       \<and> (\<forall>e m'. sensitivity ms p ids m = (Inl e, m') \<longrightarrow>
             (sens_flag m' \<longleftrightarrow> (\<exists>v m1. sens_prologue ms p m = (Inr v, m1))))"
proof (intro conjI allI impI)
  fix r m' assume "sensitivity ms p ids m = (Inr r, m')"
  then show "\<not> sens_flag m'"
    by (auto simp add: sensitivity_def split: sum.splits prod.splits)
next
  fix val pos neg acc and m1 :: "'a model_scheme" assume "sens_flag m1"
  then show "sens_flag (snd (sens_loop ms p val pos neg ids acc m1))"
    by (simp add: sens_loop_flag[OF assms(1)])
next
  fix val pos neg acc and m1 :: "'a model_scheme" assume "sens_flag m1"
  then show "sens_loop (with_flag_check ms) p val pos neg ids acc m1 =
                 sens_loop ms p val pos neg ids acc m1"
    by (rule sens_loop_checked[OF assms(1)])
next
  fix e m' assume err: "sensitivity ms p ids m = (Inl e, m')"
  show "sens_flag m' \<longleftrightarrow> (\<exists>v m1. sens_prologue ms p m = (Inr v, m1))"
  proof (cases "sens_prologue ms p m")
    case (Pair res m1)
    from sens_prologue_flag[OF assms(1), of p m] Pair assms(2)
    have f1: "\<not> sens_flag m1" by simp
    show ?thesis
    proof (cases res)
      case (Inl e1)
      with Pair err f1 show ?thesis by (simp add: sensitivity_def)
    next
      case (Inr v)
      obtain val pos neg where v: "v = (val, pos, neg)" by (cases v)
      from err Pair Inr v have
        "sens_loop ms p val pos neg ids [] (m1\<lparr>sens_flag := True\<rparr>) = (Inl e, m')"
        by (auto simp add: sensitivity_def split: sum.splits prod.splits)
      with sens_loop_flag[OF assms(1), of p val pos neg ids "[]" "m1\<lparr>sens_flag := True\<rparr>"]
      have "sens_flag m'" by simp
      with Pair Inr show ?thesis by blast
    qed
  qed
qed

theorem sens_flag_protocol_witness:
  "keeps_flag toy_methods \<and> \<not> sens_flag toy_model
   \<and> fst (sensitivity toy_methods (1 / 2) [0] toy_model) = Inr (50, [5 / 6])
   \<and> \<not> sens_flag (snd (sensitivity toy_methods (1 / 2) [0] toy_model))
   \<and> fst (sensitivity toy_methods 1 [0] toy_model) = Inl CanteraError
   \<and> (\<exists>v m1. sens_prologue toy_methods 1 toy_model = (Inr v, m1))"
proof -
  have nf: "\<not> sens_flag toy_model" by (simp add: toy_model_def)
  have ok: "sensitivity toy_methods (1 / 2) [0] toy_model =
      (Inr (50, [5 / 6]), snd (sensitivity toy_methods (1 / 2) [0] toy_model))"
    using toy_run_half by (metis prod.collapse)
  have bad: "sensitivity toy_methods 1 [0] toy_model =
      (Inl CanteraError, snd (sensitivity toy_methods 1 [0] toy_model))"
    using toy_run_one(1) by (metis prod.collapse)
  from sens_flag_protocol[OF toy_keeps_flag nf, of "1 / 2" "[0]"] ok
  have a: "\<not> sens_flag (snd (sensitivity toy_methods (1 / 2) [0] toy_model))" by blast
  from sens_flag_protocol[OF toy_keeps_flag nf, of 1 "[0]"] bad toy_run_one(2)
  have b: "\<exists>v m1. sens_prologue toy_methods 1 toy_model = (Inr v, m1)" by blast
  from toy_keeps_flag nf toy_run_half a toy_run_one(1) b show ?thesis by blast
qed

section \<open>Properties of the flame-speed evaluation\<close>

lemma sim_steps_trans:
  "sim_steps m a m1 \<Longrightarrow> sim_steps m1 b m2 \<Longrightarrow> sim_steps m (a @ b) m2"
  by (auto simp add: sim_steps_def)

lemma sim_steps_fields:
  assumes "sim_steps m evs m'"
  shows "gas m' = gas m" "loglevel m' = loglevel m" "restart m' = restart m"
    "sens_flag m' = sens_flag m" "savefile m' = savefile m" "files m' = files m"
    "simulation m' \<noteq> None" "emitted m' = emitted m @ evs"
    "model_parameter_info m' = model_parameter_info m"
  using assms by (auto simp add: sim_steps_def)

lemma simulation_same:
  fixes m :: "'fs flame_speed"
  assumes "simulation m = Some y"
  shows "m\<lparr>simulation := Some y\<rparr> = m"
proof -
  have "m\<lparr>simulation := simulation m\<rparr> = m" by simp
  with assms show ?thesis by simp
qed

lemma sim_steps_emit:
  assumes "simulation m \<noteq> None"
  shows "sim_steps m [ev] (emit ev m)"
proof -
  from assms obtain y where y: "simulation m = Some y" by auto
  have "emit ev m = (m\<lparr>simulation := Some y\<rparr>)\<lparr>emitted := emitted m @ [ev]\<rparr>"
    by (simp only: simulation_same[OF y] emit_def)
  then show ?thesis unfolding sim_steps_def by auto
qed

lemma sim_steps_update:
  assumes "simulation m \<noteq> None"
  shows "sim_steps m [] (sim_update f m)"
proof -
  from assms obtain y where y: "simulation m = Some y" by auto
  then have "sim_update f m = m\<lparr>simulation := Some (f y), emitted := emitted m @ []\<rparr>"
    by (simp add: sim_update_def)
  then show ?thesis unfolding sim_steps_def by blast
qed

lemma sim_steps_solve_call:
  assumes "simulation m \<noteq> None" "gas m \<noteq> None"
  shows "sim_steps m [Solve ll rg (fst (solve_call ct ll rg m))] (snd (solve_call ct ll rg m))"
  using assms by (auto simp add: sim_steps_def solve_call_def emit_def Let_def)

lemma solve_with_retry_trace:
  assumes "simulation m \<noteq> None" "gas m \<noteq> None"
  shows "\<exists>t. sim_steps m t (solve_with_retry ct rg m) \<and> retry_trace (loglevel m) rg t"
proof -
  let ?ll = "loglevel m"
  obtain r1 m1 where c1: "solve_call ct ?ll rg m = (r1, m1)" by (cases "solve_call ct ?ll rg m")
  from sim_steps_solve_call[OF assms, of ?ll rg ct] c1
  have s1: "sim_steps m [Solve ?ll rg r1] m1" by simp
  show ?thesis
  proof (cases r1)
    case None
    with c1 s1 show ?thesis
      by (auto simp add: solve_with_retry_def retry_trace_def)
  next
    case (Some e)
    let ?msg = "Print ''As predicted, first attempt failed, trying one more time''"
    let ?m1' = "emit ?msg m1"
    from sim_steps_fields[OF s1] have p1: "simulation m1 \<noteq> None" "gas m1 \<noteq> None" "loglevel m1 = ?ll"
      using assms by simp_all
    from sim_steps_emit[OF p1(1), of ?msg] have s2: "sim_steps m1 [?msg] ?m1'" .
    from sim_steps_fields[OF s2] p1 have p2: "simulation ?m1' \<noteq> None" "gas ?m1' \<noteq> None"
      by simp_all
    obtain r2 m2 where c2: "solve_call ct ?ll rg ?m1' = (r2, m2)"
      by (cases "solve_call ct ?ll rg ?m1'")
    from sim_steps_solve_call[OF p2, of ?ll rg ct] c2
    have s3: "sim_steps ?m1' [Solve ?ll rg r2] m2" by simp
    from sim_steps_trans[OF sim_steps_trans[OF s1 s2] s3]
    have s123: "sim_steps m [Solve ?ll rg r1, ?msg, Solve ?ll rg r2] m2" by simp
    show ?thesis
    proof (cases r2)
      case None
      with c1 c2 Some p1(3) s123 show ?thesis
        by (auto simp add: solve_with_retry_def retry_trace_def)
    next
      case S2: (Some e2)
      from sim_steps_fields[OF s3] have "simulation m2 \<noteq> None" by simp
      from sim_steps_trans[OF s123 sim_steps_emit[OF this, of "Print ''Could not find a solution''"]]
      have "sim_steps m [Solve ?ll rg r1, ?msg, Solve ?ll rg r2, Print ''Could not find a solution'']
               (emit (Print ''Could not find a solution'') m2)" by simp
      with c1 c2 Some S2 p1(3) show ?thesis
        by (auto simp add: solve_with_retry_def retry_trace_def)
    qed
  qed
qed

lemma solve_guarded_trace:
  assumes "simulation m \<noteq> None" "gas m \<noteq> None"
  shows "\<exists>t. sim_steps m t (solve_guarded ct rg m) \<and> guarded_trace (loglevel m) rg t"
proof -
  let ?ll = "loglevel m"
  obtain r1 m1 where c1: "solve_call ct ?ll rg m = (r1, m1)" by (cases "solve_call ct ?ll rg m")
  from sim_steps_solve_call[OF assms, of ?ll rg ct] c1
  have s1: "sim_steps m [Solve ?ll rg r1] m1" by simp
  show ?thesis
  proof (cases r1)
    case None
    with c1 s1 show ?thesis
      by (auto simp add: solve_guarded_def guarded_trace_def)
  next
    case (Some e)
    from sim_steps_fields[OF s1] have "simulation m1 \<noteq> None" by simp
    from sim_steps_trans[OF s1 sim_steps_emit[OF this, of "Print ''Could not find a solution''"]]
    have "sim_steps m [Solve ?ll rg r1, Print ''Could not find a solution'']
               (emit (Print ''Could not find a solution'') m1)" by simp
    with c1 Some show ?thesis
      by (auto simp add: solve_guarded_def guarded_trace_def)
  qed
qed

lemma stage1_trace:
  assumes "simulation m \<noteq> None" "gas m \<noteq> None"
  shows "\<exists>t. sim_steps m ([Print ''False'', Print ''Mix'',
                 Print ''Mixture-averaged solution, no energy equation, no grid refinement''] @ t)
               (stage1 ct m)
             \<and> retry_trace (loglevel m) False t"
proof -
  from assms obtain y where y: "simulation m = Some y" by auto
  let ?pre = "[Print ''False'', Print ''Mix'',
                 Print ''Mixture-averaged solution, no energy equation, no grid refinement'']"
  obtain m3 where m3: "stage1 ct m = solve_with_retry ct False m3"
    and s: "sim_steps m ?pre m3"
    using y by (auto simp add: stage1_def sim_update_def emit_def print_bool_def sim_steps_def Let_def)
  from sim_steps_fields[OF s] assms have r3: "simulation m3 \<noteq> None" "gas m3 \<noteq> None"
    and ll: "loglevel m3 = loglevel m" by simp_all
  from solve_with_retry_trace[OF r3, of ct False] obtain t where
    "sim_steps m3 t (solve_with_retry ct False m3)" "retry_trace (loglevel m3) False t" by blast
  with sim_steps_trans[OF s] m3 ll show ?thesis by auto
qed

lemma stage2_trace:
  assumes "simulation m \<noteq> None" "gas m \<noteq> None"
  shows "\<exists>t. sim_steps m ([Print ''Mixture-averaged solution, enable energy equation and grid refinement''] @ t)
               (stage2 ct m)
             \<and> retry_trace (loglevel m) True t"
proof -
  from assms obtain y where y: "simulation m = Some y" by auto
  let ?pre = "[Print ''Mixture-averaged solution, enable energy equation and grid refinement'']"
  define m3 where "m3 = sim_update (\<lambda>s. s\<lparr>energy_enabled := True,
                                 refine_criteria := Some (10, 6 / 100, 8 / 100, 0)\<rparr>)
      (emit (Print ''Mixture-averaged solution, enable energy equation and grid refinement'') m)"
  have m3: "stage2 ct m = solve_with_retry ct True m3"
    by (simp add: stage2_def m3_def Let_def)
  have e: "sim_steps m ?pre
      (emit (Print ''Mixture-averaged solution, enable energy equation and grid refinement'') m)"
    by (rule sim_steps_emit[OF assms(1)])
  from sim_steps_trans[OF e sim_steps_update[OF sim_steps_fields(7)[OF e]]]
  have s: "sim_steps m ?pre m3" by (simp add: m3_def)
  from sim_steps_fields[OF s] assms have r3: "simulation m3 \<noteq> None" "gas m3 \<noteq> None"
    and ll: "loglevel m3 = loglevel m" by simp_all
  from solve_with_retry_trace[OF r3, of ct True] obtain t where
    "sim_steps m3 t (solve_with_retry ct True m3)" "retry_trace (loglevel m3) True t" by blast
  with sim_steps_trans[OF s] m3 ll show ?thesis by auto
qed

lemma stage3_trace:
  assumes "simulation m \<noteq> None" "gas m \<noteq> None"
  shows "\<exists>t. sim_steps m ([Print ''Multicomponent solution''] @ t) (stage3 ct m)
             \<and> guarded_trace (loglevel m) True t"
proof -
  from assms obtain y where y: "simulation m = Some y" by auto
  let ?pre = "[Print ''Multicomponent solution'']"
  define m3 where "m3 = sim_update (\<lambda>s. s\<lparr>transport_model := ''Multi'', soret_enabled := True,
                                 refine_criteria := Some (10, 6 / 100, 8 / 100, 1 / 10 ^ 4)\<rparr>)
      (emit (Print ''Multicomponent solution'') m)"
  have m3: "stage3 ct m = solve_guarded ct True m3"
    by (simp add: stage3_def m3_def Let_def)
  have e: "sim_steps m ?pre (emit (Print ''Multicomponent solution'') m)"
    by (rule sim_steps_emit[OF assms(1)])
  from sim_steps_trans[OF e sim_steps_update[OF sim_steps_fields(7)[OF e]]]
  have s: "sim_steps m ?pre m3" by (simp add: m3_def)
  from sim_steps_fields[OF s] assms have r3: "simulation m3 \<noteq> None" "gas m3 \<noteq> None"
    and ll: "loglevel m3 = loglevel m" by simp_all
  from solve_guarded_trace[OF r3, of ct True] obtain t where
    "sim_steps m3 t (solve_guarded ct True m3)" "guarded_trace (loglevel m3) True t" by blast
  with sim_steps_trans[OF s] m3 ll show ?thesis by auto
qed

lemma cold_start_trace:
  assumes "simulation m \<noteq> None" "gas m \<noteq> None"
  shows "\<exists>evs. sim_steps m evs (cold_start ct m) \<and> cold_trace (loglevel m) evs"
proof -
  from stage1_trace[OF assms, of ct] obtain t1 where
    s1: "sim_steps m ([Print ''False'', Print ''Mix'',
                 Print ''Mixture-averaged solution, no energy equation, no grid refinement''] @ t1)
               (stage1 ct m)"
    and t1: "retry_trace (loglevel m) False t1" by blast
  from sim_steps_fields[OF s1] assms have r1: "simulation (stage1 ct m) \<noteq> None"
    "gas (stage1 ct m) \<noteq> None" and l1: "loglevel (stage1 ct m) = loglevel m" by simp_all
  from stage2_trace[OF r1, of ct] l1 obtain t2 where
    s2: "sim_steps (stage1 ct m)
           ([Print ''Mixture-averaged solution, enable energy equation and grid refinement''] @ t2)
           (stage2 ct (stage1 ct m))"
    and t2: "retry_trace (loglevel m) True t2" by auto
  from sim_steps_fields[OF s2] r1 l1 have r2: "simulation (stage2 ct (stage1 ct m)) \<noteq> None"
    "gas (stage2 ct (stage1 ct m)) \<noteq> None"
    and l2: "loglevel (stage2 ct (stage1 ct m)) = loglevel m" by simp_all
  from stage3_trace[OF r2, of ct] l2 obtain t3 where
    s3: "sim_steps (stage2 ct (stage1 ct m)) ([Print ''Multicomponent solution''] @ t3)
           (stage3 ct (stage2 ct (stage1 ct m)))"
    and t3: "guarded_trace (loglevel m) True t3" by auto
  from sim_steps_trans[OF sim_steps_trans[OF s1 s2] s3] t1 t2 t3
  show ?thesis unfolding cold_trace_def cold_start_def by (intro exI conjI) (assumption | simp)+
qed

text \<open>The first lines of evaluate: the mechanism and the flame object exist afterwards.\<close>

lemma evaluate_prepared:
  fixes m :: "'fs flame_speed"
  shows "\<exists>m2. (if simulation (if gas m = None then initialize_chemistry m else m) = None
            then initialize_reactor ct (if gas m = None then initialize_chemistry m else m)
            else Inr (if gas m = None then initialize_chemistry m else m)) = Inr m2
          \<and> simulation m2 \<noteq> None \<and> gas m2 \<noteq> None \<and> emitted m2 = emitted m
          \<and> loglevel m2 = loglevel m \<and> restart m2 = restart m \<and> sens_flag m2 = sens_flag m
          \<and> savefile m2 = savefile m
          \<and> (gas m \<noteq> None \<longrightarrow> simulation m \<noteq> None \<longrightarrow> m2 = m)"
  by (auto simp add: initialize_chemistry_def initialize_reactor_def Let_def split: option.splits)

lemma evaluate_cold:
  fixes m :: "'fs flame_speed"
  assumes "\<not> sens_flag m" "restart m = None"
  shows "\<exists>v m' evs. evaluate ct m = (Inr v, m') \<and> emitted m' = emitted m @ evs
           \<and> cold_trace (loglevel m) evs \<and> restart m' = None \<and> \<not> sens_flag m'"
proof -
  from evaluate_prepared[of m ct] obtain m2 where
    prep: "(if simulation (if gas m = None then initialize_chemistry m else m) = None
            then initialize_reactor ct (if gas m = None then initialize_chemistry m else m)
            else Inr (if gas m = None then initialize_chemistry m else m)) = Inr m2"
    and r: "simulation m2 \<noteq> None" "gas m2 \<noteq> None"
    and f: "emitted m2 = emitted m" "loglevel m2 = loglevel m" "restart m2 = restart m"
       "sens_flag m2 = sens_flag m"
    by blast
  from cold_start_trace[OF r, of ct] obtain evs where
    s: "sim_steps m2 evs (cold_start ct m2)" and c: "cold_trace (loglevel m2) evs" by blast
  from sim_steps_fields[OF s] obtain sim where sim: "simulation (cold_start ct m2) = Some sim"
    by auto
  have "evaluate ct m = (Inr (u0 sim / (1 / 100)), cold_start ct m2)"
    unfolding evaluate_def Let_def prep using assms f sim by simp
  with sim_steps_fields[OF s] f c assms show ?thesis by auto
qed

lemma flame_model_constructed:
  "flame_speed_init example_state [elementary_example] 1 3 2 ''soln'' [] True True True = Inr flame_model"
  by (simp add: flame_speed_init_def example_defs catalog_defs lifecycle_defs linspace_def
      flame_model_def model.defs flame_speed.defs numeral_3_eq_3 upt_rec)

lemmas flame_defs = evaluate_def cold_start_def stage1_def stage2_def stage3_def sens_solve_def
  restart_solve_def solve_with_retry_def solve_guarded_def solve_call_def restore_call_def
  save_call_def sim_update_def emit_def print_bool_def initialize_reactor_def
  initialize_chemistry_def Solution_def load_restart_def save_restart_def ignore_restart_def
  Let_def

lemmas example_flame_defs = example_cantera_def example_solve_def example_flame_def
  flame_model_def example_defs reaction_at_def Arrhenius_def entry_def

lemma sim_steps_restore_call:
  assumes "simulation m \<noteq> None"
  shows "sim_steps m [Restore f n (fst (restore_call ct f n m))] (snd (restore_call ct f n m))"
  using assms by (auto simp add: sim_steps_def restore_call_def emit_def Let_def)

lemma evaluate_restart:
  fixes m :: "'fs flame_speed"
  assumes "\<not> sens_flag m" "restart m \<noteq> None"
  shows "(\<exists>e m'. evaluate ct m = (Inl e, m')
             \<and> emitted m' = emitted m @ [Restore (savefile m) ''restart'' (Some e)])
       \<or> (\<exists>v m' t. evaluate ct m = (Inr v, m')
             \<and> emitted m' = emitted m @ [Restore (savefile m) ''restart'' None] @ t
             \<and> guarded_trace (loglevel m) False t)"
proof -
  from evaluate_prepared[of m ct] obtain m2 where
    prep: "(if simulation (if gas m = None then initialize_chemistry m else m) = None
            then initialize_reactor ct (if gas m = None then initialize_chemistry m else m)
            else Inr (if gas m = None then initialize_chemistry m else m)) = Inr m2"
    and r: "simulation m2 \<noteq> None" "gas m2 \<noteq> None"
    and f: "emitted m2 = emitted m" "loglevel m2 = loglevel m" "restart m2 = restart m"
       "sens_flag m2 = sens_flag m" "savefile m2 = savefile m"
    by blast
  obtain res m3 where rc: "restore_call ct (savefile m2) ''restart'' m2 = (res, m3)"
    by (cases "restore_call ct (savefile m2) ''restart'' m2")
  from sim_steps_restore_call[OF r(1), of "savefile m2" "''restart''" ct] rc
  have s3: "sim_steps m2 [Restore (savefile m2) ''restart'' res] m3" by simp
  have ev: "evaluate ct m =
      (case restart_solve ct m2 of
         (Some e, m3) \<Rightarrow> (Inl e, m3)
       | (None, m3) \<Rightarrow> (case simulation m3 of None \<Rightarrow> (Inl AttributeError, m3)
                        | Some sim \<Rightarrow> (Inr (u0 sim / (1 / 100)), m3)))"
    unfolding evaluate_def Let_def prep using assms f by auto
  show ?thesis
  proof (cases res)
    case (Some e)
    with ev rc have "evaluate ct m = (Inl e, m3)" by (simp add: restart_solve_def)
    with sim_steps_fields(8)[OF s3] f Some show ?thesis by auto
  next
    case None
    define m4 where "m4 = sim_update (\<lambda>s. s\<lparr>energy_enabled := True, transport_model := ''Multi'',
                                soret_enabled := True,
                                refine_criteria := Some (10, 6 / 100, 8 / 100, 1 / 10 ^ 4)\<rparr>) m3"
    from sim_steps_trans[OF s3 sim_steps_update[OF sim_steps_fields(7)[OF s3]]]
    have s4: "sim_steps m2 [Restore (savefile m2) ''restart'' res] m4" by (simp add: m4_def)
    from sim_steps_fields[OF s4] r f have r4: "simulation m4 \<noteq> None" "gas m4 \<noteq> None"
      and l4: "loglevel m4 = loglevel m" by simp_all
    from solve_guarded_trace[OF r4, of ct False] l4 obtain t where
      s5: "sim_steps m4 t (solve_guarded ct False m4)" and t: "guarded_trace (loglevel m) False t"
      by auto
    from sim_steps_fields[OF s5] obtain sim where
      sim: "simulation (solve_guarded ct False m4) = Some sim" by auto
    from ev rc None sim have
      "evaluate ct m = (Inr (u0 sim / (1 / 100)), solve_guarded ct False m4)"
      by (simp add: restart_solve_def m4_def)
    with sim_steps_fields(8)[OF sim_steps_trans[OF s4 s5]] f None t show ?thesis by auto
  qed
qed

lemma evaluate_sens:
  fixes m :: "'fs flame_speed"
  assumes "sens_flag m"
  shows "(\<exists>e m'. evaluate ct m = (Inl e, m') \<and> emitted m' = emitted m @ [Solve 0 False (Some e)])
       \<or> (\<exists>v m'. evaluate ct m = (Inr v, m') \<and> emitted m' = emitted m @ [Solve 0 False None])"
proof -
  from evaluate_prepared[of m ct] obtain m2 where
    prep: "(if simulation (if gas m = None then initialize_chemistry m else m) = None
            then initialize_reactor ct (if gas m = None then initialize_chemistry m else m)
            else Inr (if gas m = None then initialize_chemistry m else m)) = Inr m2"
    and r: "simulation m2 \<noteq> None" "gas m2 \<noteq> None"
    and f: "emitted m2 = emitted m" "sens_flag m2 = sens_flag m"
    by blast
  define m3 where "m3 = sim_update (\<lambda>s. s\<lparr>energy_enabled := True, transport_model := ''Multi'',
                           soret_enabled := True\<rparr>) m2"
  from sim_steps_update[OF r(1)] have s3: "sim_steps m2 [] m3" by (simp add: m3_def)
  from sim_steps_fields[OF s3] r have r3: "simulation m3 \<noteq> None" "gas m3 \<noteq> None" by simp_all
  obtain res m4 where sc: "solve_call ct 0 False m3 = (res, m4)"
    by (cases "solve_call ct 0 False m3")
  from sim_steps_solve_call[OF r3, of 0 False ct] sc
  have s4: "sim_steps m3 [Solve 0 False res] m4" by simp
  from sim_steps_fields[OF s4] obtain sim where sim: "simulation m4 = Some sim" by auto
  have ev: "evaluate ct m =
      (case res of Some e \<Rightarrow> (Inl e, m4) | None \<Rightarrow> (Inr (u0 sim / (1 / 100)), m4))"
    unfolding evaluate_def Let_def prep using assms f sc sim
    by (simp add: sens_solve_def m3_def split: option.split)
  from sim_steps_fields(8)[OF sim_steps_trans[OF s3 s4]] f
  have "emitted m4 = emitted m @ [Solve 0 False res]" by simp
  with ev show ?thesis by (cases res) auto
qed

lemma retry_trace_solves:
  "retry_trace ll rg t \<Longrightarrow> length (filter is_solve t) \<in> {1, 2} \<and> (\<forall>ev\<in>set t. \<not> is_restore ev)"
  by (auto simp add: retry_trace_def is_solve_def is_restore_def)

lemma guarded_trace_solves:
  "guarded_trace ll rg t \<Longrightarrow> length (filter is_solve t) = 1 \<and> (\<forall>ev\<in>set t. \<not> is_restore ev)"
  by (auto simp add: guarded_trace_def is_solve_def is_restore_def)

lemma cold_trace_solves:
  assumes "cold_trace ll evs"
  shows "3 \<le> length (filter is_solve evs)" "length (filter is_solve evs) \<le> 5"
    "\<forall>ev\<in>set evs. \<not> is_restore ev"
proof -
  from assms obtain t1 t2 t3 where
    evs: "evs = [Print ''False'', Print ''Mix'',
               Print ''Mixture-averaged solution, no energy equation, no grid refinement'']
              @ t1
              @ [Print ''Mixture-averaged solution, enable energy equation and grid refinement'']
              @ t2
              @ [Print ''Multicomponent solution'']
              @ t3"
    and t: "retry_trace ll False t1" "retry_trace ll True t2" "guarded_trace ll True t3"
    unfolding cold_trace_def by blast
  from retry_trace_solves[OF t(1)] retry_trace_solves[OF t(2)] guarded_trace_solves[OF t(3)]
  show "3 \<le> length (filter is_solve evs)" "length (filter is_solve evs) \<le> 5"
    "\<forall>ev\<in>set evs. \<not> is_restore ev"
    by (auto simp add: evs is_solve_def is_restore_def)
qed



lemmas flame_run_defs = flame_defs example_flame_defs

lemma flame_cold_run:
  "fst (evaluate example_cantera flame_model) = Inr 38"
  by (simp add: flame_run_defs)

lemma flame_restart_run:
  "fst (evaluate example_cantera
          (flame_model\<lparr>restart := Some True, files := [(''soln.xml'', ''restart'')]\<rparr>)) = Inr 38"
  "emitted (snd (evaluate example_cantera
          (flame_model\<lparr>restart := Some True, files := [(''soln.xml'', ''restart'')]\<rparr>))) =
     [Restore ''soln.xml'' ''restart'' None, Solve 2 False None]"
  by (simp_all add: flame_run_defs)

lemma flame_sens_run:
  "fst (evaluate example_cantera (flame_model\<lparr>sens_flag := True\<rparr>)) = Inr 38"
  by (simp add: flame_run_defs)


text \<open>
  Claim C4, as amended. When sensitivity is not in progress, no exception of a solve
  leaves \<^verbatim>\<open>evaluate\<close>, whatever the solver does: without a restart the call returns a
  value after the three stages, having emitted the stage messages and, per stage, what
  \<open>retry_trace\<close>, \<open>retry_trace\<close> and \<open>guarded_trace\<close> allow (first and second
  stage: one solve, and a second one exactly when the first raised; third stage: exactly
  one solve; each exception answered by its message), between three and five solves in
  all; with a restart the call either raises what \<^verbatim>\<open>restore\<close> raised, before any
  solve, or returns a value after exactly one solve without grid refinement, its exception
  answered by the message. When sensitivity is in progress there is exactly one solve and
  its exception, if any, leaves \<^verbatim>\<open>evaluate\<close>.
\<close>

theorem evaluate_guards_solver:
  fixes m :: "'fs flame_speed"
  shows "(\<not> sens_flag m \<and> restart m = None \<longrightarrow>
            (\<exists>v m' evs. evaluate ct m = (Inr v, m') \<and> emitted m' = emitted m @ evs
                \<and> cold_trace (loglevel m) evs
                \<and> 3 \<le> length (filter is_solve evs) \<and> length (filter is_solve evs) \<le> 5))
       \<and> (\<not> sens_flag m \<and> restart m \<noteq> None \<longrightarrow>
            ((\<exists>e m'. evaluate ct m = (Inl e, m')
                 \<and> emitted m' = emitted m @ [Restore (savefile m) ''restart'' (Some e)])
             \<or> (\<exists>v m' t. evaluate ct m = (Inr v, m')
                 \<and> emitted m' = emitted m @ [Restore (savefile m) ''restart'' None] @ t
                 \<and> guarded_trace (loglevel m) False t)))
       \<and> (sens_flag m \<longrightarrow>
            ((\<exists>e m'. evaluate ct m = (Inl e, m')
                 \<and> emitted m' = emitted m @ [Solve 0 False (Some e)])
             \<or> (\<exists>v m'. evaluate ct m = (Inr v, m')
                 \<and> emitted m' = emitted m @ [Solve 0 False None])))"
proof (intro conjI impI)
  assume a: "\<not> sens_flag m \<and> restart m = None"
  then have "\<not> sens_flag m" "restart m = None" by simp_all
  from evaluate_cold[OF this, of ct] obtain v m' evs where
    "evaluate ct m = (Inr v, m')" "emitted m' = emitted m @ evs" "cold_trace (loglevel m) evs"
    by blast
  with cold_trace_solves(1,2)[OF this(3)]
  show "\<exists>v m' evs. evaluate ct m = (Inr v, m') \<and> emitted m' = emitted m @ evs
                \<and> cold_trace (loglevel m) evs
                \<and> 3 \<le> length (filter is_solve evs) \<and> length (filter is_solve evs) \<le> 5"
    by blast
next
  assume "\<not> sens_flag m \<and> restart m \<noteq> None"
  then have "\<not> sens_flag m" "restart m \<noteq> None" by simp_all
  from evaluate_restart[OF this, of ct]
  show "(\<exists>e m'. evaluate ct m = (Inl e, m')
                 \<and> emitted m' = emitted m @ [Restore (savefile m) ''restart'' (Some e)])
             \<or> (\<exists>v m' t. evaluate ct m = (Inr v, m')
                 \<and> emitted m' = emitted m @ [Restore (savefile m) ''restart'' None] @ t
                 \<and> guarded_trace (loglevel m) False t)" .
next
  assume "sens_flag m"
  from evaluate_sens[OF this, of ct]
  show "(\<exists>e m'. evaluate ct m = (Inl e, m')
                 \<and> emitted m' = emitted m @ [Solve 0 False (Some e)])
             \<or> (\<exists>v m'. evaluate ct m = (Inr v, m')
                 \<and> emitted m' = emitted m @ [Solve 0 False None])" .
qed


theorem evaluate_guards_solver_witness:
  "\<not> sens_flag flame_model \<and> restart flame_model = None
   \<and> fst (evaluate example_cantera flame_model) = Inr 38
   \<and> (\<exists>evs. emitted (snd (evaluate example_cantera flame_model)) = evs \<and> cold_trace 2 evs
          \<and> length (filter is_solve evs) \<le> 5)
   \<and> fst (evaluate example_cantera
          (flame_model\<lparr>restart := Some True, files := [(''soln.xml'', ''restart'')]\<rparr>)) = Inr 38
   \<and> emitted (snd (evaluate example_cantera
          (flame_model\<lparr>restart := Some True, files := [(''soln.xml'', ''restart'')]\<rparr>))) =
       [Restore ''soln.xml'' ''restart'' None, Solve 2 False None]
   \<and> fst (evaluate example_cantera (flame_model\<lparr>sens_flag := True\<rparr>)) = Inr 38
   \<and> emitted (snd (evaluate example_cantera (flame_model\<lparr>sens_flag := True\<rparr>))) =
       [Solve 0 False None]"
proof -
  have h1: "\<not> sens_flag flame_model \<and> restart flame_model = None"
    by (simp add: flame_model_def)
  have e0: "emitted flame_model = []" "loglevel flame_model = 2" by (simp_all add: flame_model_def)
  from evaluate_guards_solver[of flame_model example_cantera] h1 obtain v m' evs where
    "evaluate example_cantera flame_model = (Inr v, m')" "emitted m' = emitted flame_model @ evs"
    "cold_trace (loglevel flame_model) evs" "length (filter is_solve evs) \<le> 5"
    by blast
  then have cold: "\<exists>evs. emitted (snd (evaluate example_cantera flame_model)) = evs \<and> cold_trace 2 evs
          \<and> length (filter is_solve evs) \<le> 5"
    using e0 by simp
  have h3: "sens_flag (flame_model\<lparr>sens_flag := True\<rparr>)" by simp
  from evaluate_guards_solver[of "flame_model\<lparr>sens_flag := True\<rparr>" example_cantera] h3 flame_sens_run
  have sens: "emitted (snd (evaluate example_cantera (flame_model\<lparr>sens_flag := True\<rparr>))) =
       [Solve 0 False None]"
    by (auto simp add: flame_model_def)
  from h1 flame_cold_run cold flame_restart_run flame_sens_run sens show ?thesis by blast
qed


text \<open>
  The claim as stated, for every call, fails when sensitivity is in progress: on a mechanism
  perturbed so far that the example solver does not converge, the solver's exception leaves
  \<^verbatim>\<open>evaluate\<close>.
\<close>

theorem sens_solve_propagates_counterexample:
  "sens_flag ((perturb_all [(0, 10)] (initialize_chemistry flame_model))\<lparr>sens_flag := True\<rparr>)
   \<and> evaluate example_cantera
       ((perturb_all [(0, 10)] (initialize_chemistry flame_model))\<lparr>sens_flag := True\<rparr>) =
     (Inl CanteraError,
      snd (evaluate example_cantera
       ((perturb_all [(0, 10)] (initialize_chemistry flame_model))\<lparr>sens_flag := True\<rparr>)))
   \<and> emitted (snd (evaluate example_cantera
       ((perturb_all [(0, 10)] (initialize_chemistry flame_model))\<lparr>sens_flag := True\<rparr>))) =
     [Solve 0 False (Some CanteraError)]"
  by (simp add: flame_run_defs accessor_defs)







section \<open>The finite-difference routine on the flame-speed model\<close>

text \<open>
  Claim C3 as stated, for every exit path, fails on an exception raised by an evaluation
  inside the loop. The base class's \<^verbatim>\<open>sensitivity\<close> runs on the flame-speed model
  with the fraction 1: the baseline evaluation and the restart save complete, the flag is
  set, the perturbed evaluation takes the unguarded solve, the example solver does not
  converge, and the exception leaves \<^verbatim>\<open>sensitivity\<close> with the flag still set.
\<close>

theorem sens_flag_left_set_counterexample:
  "\<not> sens_flag flame_model
   \<and> fst (sensitivity (flame_methods example_cantera) 1 [0] flame_model) = Inl CanteraError
   \<and> sens_flag (snd (sensitivity (flame_methods example_cantera) 1 [0] flame_model))
   \<and> drop 10 (emitted (snd (sensitivity (flame_methods example_cantera) 1 [0] flame_model))) =
       [Save ''soln.xml'' ''restart'' ''Base solution for this flame speed'' None,
        WriteValue 38,
        WriteHeader ''Rxn  Value+       Value-           Sensitivi   Reaction Name'',
        Solve 0 False (Some CanteraError)]"
  by (simp add: flame_methods_def sens_defs flame_run_defs accessor_defs)

lemma flame_fd_run_completes:
  "fst (sensitivity (flame_methods example_cantera) (1 / 2) [0] flame_model) = Inr (38, [0])
   \<and> \<not> sens_flag (snd (sensitivity (flame_methods example_cantera) (1 / 2) [0] flame_model))"
  by (simp add: flame_methods_def sens_defs flame_run_defs accessor_defs)

section \<open>Properties of the adjoint sensitivity\<close>

lemma perturb_callback_sets_absolute:
  assumes "perturb_callback parameter_list i dp m = (None, m')"
  shows "\<exists>param_id. py_index parameter_list i = Inr param_id
            \<and> get_parameter m' param_id = Inr (1 + dp)"
proof -
  from assms obtain param_id mult_base where
    pid: "py_index parameter_list i = Inr param_id"
    and gp: "get_parameter m param_id = Inr mult_base"
    and pp: "perturb_parameter param_id (1 + dp) m = Inr m'"
    by (auto simp add: perturb_callback_def Let_def split: sum.splits)
  from get_parameter_readable[OF gp] obtain p r0 where
    "py_index (model_parameter_info m) param_id = Inr p"
    "read_reaction (parameter_type p) r0 = Inr mult_base" by blast
  from perturb_then_get_any[OF this pp] pid show ?thesis by blast
qed

lemma write_rows_frame:
  "write_rows rows m = (r, m') \<Longrightarrow> \<exists>evs. m' = m\<lparr>emitted := emitted m @ evs\<rparr>"
proof (induction rows arbitrary: m)
  case Nil
  then have "m' = m\<lparr>emitted := emitted m @ []\<rparr>" by simp
  then show ?case by blast
next
  case (Cons row rows)
  obtain param_id s where row: "row = (param_id, s)" by (cases row)
  show ?case
  proof (cases "py_index (model_parameter_info m) param_id")
    case (Inl e)
    with Cons.prems row have "m' = m\<lparr>emitted := emitted m @ []\<rparr>" by simp
    then show ?thesis by blast
  next
    case (Inr info)
    let ?m1 = "emit (WriteAdjointRow param_id s (parameter_name info)) m"
    from Cons.prems row Inr have "write_rows rows ?m1 = (r, m')" by simp
    from Cons.IH[OF this] obtain evs where "m' = ?m1\<lparr>emitted := emitted ?m1 @ evs\<rparr>" by blast
    then have "m' = m\<lparr>emitted := emitted m @ (WriteAdjointRow param_id s (parameter_name info) # evs)\<rparr>"
      by (simp add: emit_def)
    then show ?thesis by blast
  qed
qed

lemma adjoint_sensitivity_unrestored:
  fixes m :: "'fs flame_speed"
  assumes "adjoint_sensitivity ct perturbation parameter_list m = (Inr (val, vec), m')"
  shows "\<exists>m1 dgdx sens m2 evs. evaluate ct m = (Inr val, m1)
           \<and> ct_solve_adjoint ct (perturb_callback parameter_list) (length parameter_list) dgdx m1
               = (Inr sens, m2)
           \<and> m' = m2\<lparr>emitted := emitted m2 @ evs\<rparr>"
proof (cases "evaluate ct m")
  case (Pair r1 m1)
  show ?thesis
  proof (cases r1)
    case (Inl e)
    with Pair assms show ?thesis by (simp add: adjoint_sensitivity_def)
  next
    case (Inr v)
    show ?thesis
    proof (cases "simulation m1")
      case None
      with Pair Inr assms show ?thesis by (simp add: adjoint_sensitivity_def)
    next
      case (Some sim)
      define Nvars where "Nvars = sum_list (map (\<lambda>d. fst d * snd d) (domains sim))"
      define i_Su where "i_Su = inlet_n_components sim + flame_u_index sim"
      define dgdx where "dgdx = (replicate Nvars (0::real))[i_Su := 1]"
      obtain r2 m2 where adj:
        "ct_solve_adjoint ct (perturb_callback parameter_list) (length parameter_list) dgdx m1 = (r2, m2)"
        by (cases "ct_solve_adjoint ct (perturb_callback parameter_list) (length parameter_list) dgdx m1")
      have lt: "\<not> Nvars \<le> i_Su"
        using Pair Inr Some assms
        by (auto simp add: adjoint_sensitivity_def Let_def Nvars_def i_Su_def)
      have eq1: "adjoint_sensitivity ct perturbation parameter_list m =
          (case r2 of Inl e \<Rightarrow> (Inl e, m2)
           | Inr sens \<Rightarrow>
              (case write_rows (zip parameter_list (map (\<lambda>s. s / u0 sim) sens))
                      (emit (WriteHeader ''Rxn  Sensitivity   Reaction Name'')
                         (emit (WriteValue v) m2)) of
                 (Some e, m4) \<Rightarrow> (Inl e, m4)
               | (None, m4) \<Rightarrow> (Inr (v, map (\<lambda>s. s / u0 sim) sens), m4)))"
        using lt adj
        by (simp add: adjoint_sensitivity_def Pair Inr Some Let_def
            Nvars_def[symmetric] i_Su_def[symmetric] dgdx_def[symmetric] split: sum.split)
      show ?thesis
      proof (cases r2)
        case (Inl e)
        with eq1 assms show ?thesis by simp
      next
        case sens: (Inr sens)
        let ?m3 = "emit (WriteHeader ''Rxn  Sensitivity   Reaction Name'') (emit (WriteValue v) m2)"
        obtain r3 m4 where wr:
          "write_rows (zip parameter_list (map (\<lambda>s. s / u0 sim) sens)) ?m3 = (r3, m4)"
          by (cases "write_rows (zip parameter_list (map (\<lambda>s. s / u0 sim) sens)) ?m3")
        from eq1 sens wr assms have r3: "r3 = None" and v: "v = val" and m4: "m4 = m'"
          by (cases r3; simp)+
        from write_rows_frame[OF wr] obtain evs where "m4 = ?m3\<lparr>emitted := emitted ?m3 @ evs\<rparr>"
          by blast
        with m4 have "m' = m2\<lparr>emitted := emitted m2 @
            (WriteValue v # WriteHeader ''Rxn  Sensitivity   Reaction Name'' # evs)\<rparr>"
          by (simp add: emit_def)
        with Pair Inr v adj sens show ?thesis by blast
      qed
    qed
  qed
qed
lemma sens_step_success:
  assumes st: "sens_step ms p val pos neg param_id m = (Inr s, m')"
  shows "\<exists>(info :: param_info) b m1 vp m2 m3 m4 vm m5 m6.
           get_parameter m param_id = Inr b
         \<and> perturb_parameter param_id (pos * b) m = Inr m1
         \<and> evaluate_of ms m1 = (Inr vp, m2)
         \<and> perturb_parameter param_id (neg * b) m2 = Inr m3
         \<and> load_restart_of ms m3 = (None, m4)
         \<and> evaluate_of ms m4 = (Inr vm, m5)
         \<and> perturb_parameter param_id b m5 = Inr m6
         \<and> py_div (vp - vm) (2 * p * val) = Inr s
         \<and> m' = emit (WriteRow param_id vp vm s (parameter_name info)) m6"
  using st unfolding sens_step_def
  by (simp split: sum.splits prod.splits option.splits) blast

lemma get_parameter_emit: "get_parameter (emit ev m) pid = get_parameter m pid"
  by (simp add: get_parameter_def emit_def cong: sum.case_cong option.case_cong)

lemma perturb_parameter_catalog:
  "perturb_parameter pid v m = Inr m' \<Longrightarrow> model_parameter_info m' = model_parameter_info m"
  using perturb_parameter_frame[of pid v m m'] by auto

lemma sens_step_restores:
  assumes kc: "keeps_catalog ms"
    and st: "sens_step ms p val pos neg param_id m = (Inr s, m')"
  shows "get_parameter m' param_id = get_parameter m param_id"
proof -
  from kc have fr: "\<And>s. model_parameter_info (snd (evaluate_of ms s)) = model_parameter_info s"
    "\<And>s. model_parameter_info (snd (load_restart_of ms s)) = model_parameter_info s"
    by (simp_all add: keeps_catalog_def)
  from sens_step_success[OF st] obtain info :: param_info and b m1 vp m2 m3 m4 vm m5 m6 where
    gp: "get_parameter m param_id = Inr b"
    and p1: "perturb_parameter param_id (pos * b) m = Inr m1"
    and e1: "evaluate_of ms m1 = (Inr vp, m2)"
    and p2: "perturb_parameter param_id (neg * b) m2 = Inr m3"
    and l: "load_restart_of ms m3 = (None, m4)"
    and e2: "evaluate_of ms m4 = (Inr vm, m5)"
    and pp: "perturb_parameter param_id b m5 = Inr m6"
    and m': "m' = emit (WriteRow param_id vp vm s (parameter_name info)) m6"
    by blast
  have "model_parameter_info m2 = model_parameter_info m1" using fr(1)[of m1] e1 by simp
  moreover have "model_parameter_info m4 = model_parameter_info m3" using fr(2)[of m3] l by simp
  moreover have "model_parameter_info m5 = model_parameter_info m4" using fr(1)[of m4] e2 by simp
  ultimately have m5: "model_parameter_info m5 = model_parameter_info m"
    using perturb_parameter_catalog[OF p1] perturb_parameter_catalog[OF p2] by simp
  from get_parameter_readable[OF gp] m5 obtain pi r0 where
    "py_index (model_parameter_info m5) param_id = Inr pi"
    "read_reaction (parameter_type pi) r0 = Inr b" by auto
  from perturb_then_get_any[OF this pp] have "get_parameter m6 param_id = Inr b" .
  then show ?thesis using gp by (simp only: m' get_parameter_emit)
qed

text \<open>
  Claim C10. The callback handed to the solver, when it returns, has set the selected
  parameter to \<open>1 + dp\<close>, whatever its value was. When the adjoint \<^verbatim>\<open>sensitivity\<close>
  returns, the model is the one the solver's \<^verbatim>\<open>solve_adjoint\<close> left, with log lines
  added and nothing else changed: no parameter is written back. In the finite-difference
  routine, for subclass methods that leave the catalog alone, a completed loop iteration
  leaves the parameter with the value it had.
\<close>

theorem adjoint_callback_absolute_unrestored:
  fixes m :: "'fs flame_speed" and mc :: "'b model_scheme" and ms :: "'c methods"
  shows "(perturb_callback parameter_list i dp mc = (None, mc') \<longrightarrow>
            (\<exists>param_id. py_index parameter_list i = Inr param_id
                \<and> get_parameter mc' param_id = Inr (1 + dp)))
       \<and> (adjoint_sensitivity ct perturbation parameter_list m = (Inr (val, vec), m') \<longrightarrow>
            (\<exists>m1 dgdx sens m2 evs. evaluate ct m = (Inr val, m1)
                \<and> ct_solve_adjoint ct (perturb_callback parameter_list) (length parameter_list)
                      dgdx m1 = (Inr sens, m2)
                \<and> m' = m2\<lparr>emitted := emitted m2 @ evs\<rparr>))
       \<and> (keeps_catalog ms \<and> sens_step ms p v pos neg param_id mf = (Inr s, mf') \<longrightarrow>
            get_parameter mf' param_id = get_parameter mf param_id)"
proof (intro conjI impI)
  assume "perturb_callback parameter_list i dp mc = (None, mc')"
  then show "\<exists>param_id. py_index parameter_list i = Inr param_id
                \<and> get_parameter mc' param_id = Inr (1 + dp)"
    by (rule perturb_callback_sets_absolute)
next
  assume "adjoint_sensitivity ct perturbation parameter_list m = (Inr (val, vec), m')"
  then show "\<exists>m1 dgdx sens m2 evs. evaluate ct m = (Inr val, m1)
                \<and> ct_solve_adjoint ct (perturb_callback parameter_list) (length parameter_list)
                      dgdx m1 = (Inr sens, m2)
                \<and> m' = m2\<lparr>emitted := emitted m2 @ evs\<rparr>"
    by (rule adjoint_sensitivity_unrestored)
next
  assume "keeps_catalog ms \<and> sens_step ms p v pos neg param_id mf = (Inr s, mf')"
  then show "get_parameter mf' param_id = get_parameter mf param_id"
    using sens_step_restores by blast
qed

lemma toy_keeps_catalog: "keeps_catalog toy_methods"
  by (simp add: keeps_catalog_def toy_methods_def toy_evaluate_def base_load_restart_def
      initialize_chemistry_def Let_def split: option.split sum.split)

lemmas adjoint_run_defs = adjoint_sensitivity_def perturb_callback_def flame_run_defs accessor_defs

lemma adjoint_run:
  "fst (adjoint_sensitivity example_cantera (1 / 100) [0] flame_model) = Inr (38, [0])"
  "get_parameter (snd (adjoint_sensitivity example_cantera (1 / 100) [0] flame_model)) 0 = Inr 1"
  by (simp_all add: adjoint_run_defs)

lemma callback_run:
  "get_parameter (initialize_chemistry flame_model) 0 = Inr 5"
  "fst (perturb_callback [0] 0 (1 / 10 ^ 5) (initialize_chemistry flame_model)) = None"
  by (simp_all add: adjoint_run_defs)

lemma fd_step_run:
  "fst (sens_step toy_methods (1 / 2) 50 (3 / 2) (2 / 3) 0 (initialize_chemistry toy_model)) = Inr (5 / 6)"
  "get_parameter (initialize_chemistry toy_model) 0 = Inr 5"
  by (simp_all add: toy_run_defs)

theorem adjoint_callback_absolute_unrestored_witness:
  "get_parameter (initialize_chemistry flame_model) 0 = Inr 5
   \<and> fst (perturb_callback [0] 0 (1 / 10 ^ 5) (initialize_chemistry flame_model)) = None
   \<and> get_parameter (snd (perturb_callback [0] 0 (1 / 10 ^ 5) (initialize_chemistry flame_model))) 0
       = Inr (1 + 1 / 10 ^ 5)
   \<and> fst (adjoint_sensitivity example_cantera (1 / 100) [0] flame_model) = Inr (38, [0])
   \<and> get_parameter (snd (adjoint_sensitivity example_cantera (1 / 100) [0] flame_model)) 0 = Inr 1
   \<and> (\<exists>m1 dgdx sens m2 evs. evaluate example_cantera flame_model = (Inr 38, m1)
         \<and> ct_solve_adjoint example_cantera (perturb_callback [0]) (length [0::int]) dgdx m1
              = (Inr sens, m2)
         \<and> snd (adjoint_sensitivity example_cantera (1 / 100) [0] flame_model)
              = m2\<lparr>emitted := emitted m2 @ evs\<rparr>)
   \<and> keeps_catalog toy_methods
   \<and> fst (sens_step toy_methods (1 / 2) 50 (3 / 2) (2 / 3) 0 (initialize_chemistry toy_model))
       = Inr (5 / 6)
   \<and> get_parameter (snd (sens_step toy_methods (1 / 2) 50 (3 / 2) (2 / 3) 0
                            (initialize_chemistry toy_model))) 0 = Inr 5"
proof -
  let ?mc = "initialize_chemistry flame_model"
  let ?cb = "perturb_callback [0] 0 (1 / 10 ^ 5) ?mc"
  let ?adj = "adjoint_sensitivity example_cantera (1 / 100) [0] flame_model"
  let ?fd = "sens_step toy_methods (1 / 2) 50 (3 / 2) (2 / 3) 0 (initialize_chemistry toy_model)"
  have cb: "?cb = (None, snd ?cb)" using callback_run(2) by (metis prod.collapse)
  have adj: "?adj = (Inr (38, [0]), snd ?adj)" using adjoint_run(1) by (metis prod.collapse)
  have fd: "?fd = (Inr (5 / 6), snd ?fd)" using fd_step_run(1) by (metis prod.collapse)
  note inst = adjoint_callback_absolute_unrestored[of "[0]" 0 "1 / 10 ^ 5" ?mc "snd ?cb"
      example_cantera "1 / 100" flame_model 38 "[0]" "snd ?adj"
      toy_methods "1 / 2" 50 "3 / 2" "2 / 3" 0 "initialize_chemistry toy_model" "5 / 6" "snd ?fd"]
  from inst cb have c1: "get_parameter (snd ?cb) 0 = Inr (1 + 1 / 10 ^ 5)"
    by (auto simp add: py_index_def)
  from inst adj have c2: "\<exists>m1 dgdx sens m2 evs. evaluate example_cantera flame_model = (Inr 38, m1)
         \<and> ct_solve_adjoint example_cantera (perturb_callback [0]) (length [0::int]) dgdx m1
              = (Inr sens, m2)
         \<and> snd ?adj = m2\<lparr>emitted := emitted m2 @ evs\<rparr>"
    by blast
  from inst fd toy_keeps_catalog fd_step_run(2) have c3: "get_parameter (snd ?fd) 0 = Inr 5"
    by simp
  from callback_run c1 adjoint_run c2 toy_keeps_catalog fd_step_run(1) c3 show ?thesis by blast
qed

end
